theory Spec2Isabelle
  imports Main "HOL-Library.Word"
begin

section \<open>Values of the plugin framework\<close>

text \<open>
  The provider's resource models hold the framework's attribute values
  (\<open>types.String\<close>, \<open>types.Bool\<close>, \<open>types.Int64\<close>). Each of them is null, unknown
  or a known value; \<open>IsNull\<close> holds of the null value only, and the \<open>Value...\<close>
  accessors give the zero value of the Go type for null and unknown.
  Go's \<open>int64\<close> is a 64-bit word: \<open>*\<close> wraps around as in Go, \<open>sint\<close> reads the
  signed value. Go's \<open>int\<close> is taken as 64 bits wide (the 64-bit targets the provider is
  built for), so the conversions \<open>int(...)\<close> and \<open>int64(...)\<close> lose nothing.
\<close>

type_synonym int64 = "64 word"
type_synonym go_int = "64 word"

datatype 'a attr = Null | Unknown | Known 'a

fun IsNull :: "'a attr \<Rightarrow> bool" where
  "IsNull Null = True"
| "IsNull _ = False"

fun ValueString :: "string attr \<Rightarrow> string" where
  "ValueString (Known s) = s"
| "ValueString _ = []"

fun ValueBool :: "bool attr \<Rightarrow> bool" where
  "ValueBool (Known b) = b"
| "ValueBool _ = False"

fun ValueInt64 :: "int64 attr \<Rightarrow> int64" where
  "ValueInt64 (Known n) = n"
| "ValueInt64 _ = 0"

definition int_of_int64 :: "int64 \<Rightarrow> go_int" where
  "int_of_int64 n = scast n"

definition int64_of_int :: "go_int \<Rightarrow> int64" where
  "int64_of_int n = scast n"

subsection \<open>Diagnostics\<close>

text \<open>
  A diagnostic is an error or a warning with a summary and a detail. The framework's
  \<open>Append\<close> skips a diagnostic that the collection already contains, \<open>AddError\<close>
  appends one error diagnostic through \<open>Append\<close>, and \<open>HasError\<close> asks whether any
  diagnostic of the collection is an error.
\<close>

datatype diagnostic = ErrorDiagnostic string string | WarningDiagnostic string string

fun is_error :: "diagnostic \<Rightarrow> bool" where
  "is_error (ErrorDiagnostic _ _) = True"
| "is_error (WarningDiagnostic _ _) = False"

fun Append :: "diagnostic list \<Rightarrow> diagnostic list \<Rightarrow> diagnostic list" where
  "Append diags [] = diags"
| "Append diags (d # ds) = Append (if d \<in> set diags then diags else diags @ [d]) ds"

definition AddError :: "string \<Rightarrow> string \<Rightarrow> diagnostic list \<Rightarrow> diagnostic list" where
  "AddError summary detail diags = Append diags [ErrorDiagnostic summary detail]"

definition HasError :: "diagnostic list \<Rightarrow> bool" where
  "HasError diags = list_ex is_error diags"

subsection \<open>Errors of the admin client\<close>

text \<open>
  The admin client returns Go error values. \<open>ErrNoSuchUser\<close> and \<open>ErrNoSuchBucket\<close> are
  its two not-found sentinels, \<open>ErrOther\<close> is any other failure with its message, and
  \<open>ErrWrap\<close> is an error wrapping another one. \<open>errors_Is\<close> is Go's \<open>errors.Is\<close>: it
  walks the chain of wrapped errors looking for the target.
\<close>

datatype go_error = ErrNoSuchUser | ErrNoSuchBucket | ErrOther string | ErrWrap string go_error

fun errors_Is :: "go_error \<Rightarrow> go_error \<Rightarrow> bool" where
  "errors_Is (ErrWrap m e) target = (ErrWrap m e = target \<or> errors_Is e target)"
| "errors_Is e target = (e = target)"

fun Error :: "go_error \<Rightarrow> string" where
  "Error ErrNoSuchUser = ''NoSuchUser''"
| "Error ErrNoSuchBucket = ''NoSuchBucket''"
| "Error (ErrOther m) = m"
| "Error (ErrWrap m e) = m @ '': '' @ Error e"

section \<open>Requests and answers of the admin API\<close>

text \<open>
  \<open>admin.QuotaSpec\<close> with the fields the provider reads and writes; a Go pointer
  field is an option (\<open>None\<close> for \<open>nil\<close>). \<open>admin.Bucket\<close> is cut down to the bucket
  name and its quota, the only fields the provider touches.
\<close>

record QuotaSpec =
  UID :: string
  Bucket :: string
  QuotaType :: string
  Enabled :: "bool option"
  CheckOnRaw :: bool
  MaxSize :: "int64 option"
  MaxSizeKb :: "go_int option"
  MaxObjects :: "int64 option"

definition QuotaSpec_zero :: QuotaSpec where
  "QuotaSpec_zero = \<lparr>UID = [], Bucket = [], QuotaType = [], Enabled = None,
     CheckOnRaw = False, MaxSize = None, MaxSizeKb = None, MaxObjects = None\<rparr>"

record admin_Bucket =
  b_Bucket :: string
  b_BucketQuota :: QuotaSpec

record BucketLinkInput =
  li_Bucket :: string
  li_UID :: string

text \<open>
  The remote admin API is outside the provider. A client is the answers it gives: for
  every method the provider calls, the result of the call on a given request, as the Go
  method returns it (a value and an error, \<open>None\<close> for a \<open>nil\<close> error). Every handler
  makes at most one call, so the answers need no state. Beside its response every
  handler returns the calls it made, in order.
\<close>

record Admin =
  SetUserQuota :: "QuotaSpec \<Rightarrow> go_error option"
  SetBucketQuota :: "QuotaSpec \<Rightarrow> go_error option"
  SetIndividualBucketQuota :: "QuotaSpec \<Rightarrow> go_error option"
  GetUserQuota :: "QuotaSpec \<Rightarrow> QuotaSpec \<times> go_error option"
  GetBucketQuota :: "QuotaSpec \<Rightarrow> QuotaSpec \<times> go_error option"
  GetBucketInfo :: "admin_Bucket \<Rightarrow> admin_Bucket \<times> go_error option"
  ListUsersBuckets :: "string \<Rightarrow> string list \<times> go_error option"
  LinkBucket :: "BucketLinkInput \<Rightarrow> go_error option"
  UnlinkBucket :: "BucketLinkInput \<Rightarrow> go_error option"

datatype api_call =
  Call_SetUserQuota QuotaSpec
| Call_SetBucketQuota QuotaSpec
| Call_SetIndividualBucketQuota QuotaSpec
| Call_GetUserQuota QuotaSpec
| Call_GetBucketQuota QuotaSpec
| Call_GetBucketInfo admin_Bucket
| Call_ListUsersBuckets string
| Call_LinkBucket BucketLinkInput
| Call_UnlinkBucket BucketLinkInput

section \<open>Resource models and handler responses\<close>

text \<open>
  One record per resource model of the provider; the field prefix names the resource
  (\<open>uq\<close> user quota, \<open>gq\<close> generic quota, \<open>bq\<close> bucket quota, \<open>bl\<close> bucket link).
\<close>

record UserQuotaResourceModel =
  uq_UID :: "string attr"
  uq_Enabled :: "bool attr"
  uq_CheckOnRaw :: "bool attr"
  uq_MaxSize :: "int64 attr"
  uq_MaxSizeKB :: "int64 attr"
  uq_MaxObjects :: "int64 attr"

record QuotaResourceModel =
  gq_UID :: "string attr"
  gq_Type :: "string attr"
  gq_Enabled :: "bool attr"
  gq_CheckOnRaw :: "bool attr"
  gq_MaxSize :: "int64 attr"
  gq_MaxSizeKB :: "int64 attr"
  gq_MaxObjects :: "int64 attr"

record BucketQuotaResourceModel =
  bq_Bucket :: "string attr"
  bq_UID :: "string attr"
  bq_Enabled :: "bool attr"
  bq_CheckOnRaw :: "bool attr"
  bq_MaxSize :: "int64 attr"
  bq_MaxSizeKB :: "int64 attr"
  bq_MaxObjects :: "int64 attr"

record BucketLinkResourceModel =
  bl_UID :: "string attr"
  bl_Bucket :: "string attr"
  bl_UnlinkToUID :: "string attr"

text \<open>
  A handler works on the response the framework hands it: the state of the resource
  (\<open>None\<close> once \<open>RemoveResource\<close> has run, or before anything was written) and the
  diagnostics. The request is what \<open>req.Plan.Get\<close> or \<open>req.State.Get\<close> gives the
  handler: the diagnostics of the decoding and the decoded model. \<open>State_Set\<close> stores
  a model whose type matches the schema, which yields no diagnostics.
\<close>

record 'm Response =
  State :: "'m option"
  Diagnostics :: "diagnostic list"

definition Diagnostics_Append :: "diagnostic list \<Rightarrow> 'm Response \<Rightarrow> 'm Response" where
  "Diagnostics_Append ds resp = resp\<lparr>Diagnostics := Append (Diagnostics resp) ds\<rparr>"

definition Diagnostics_AddError :: "string \<Rightarrow> string \<Rightarrow> 'm Response \<Rightarrow> 'm Response" where
  "Diagnostics_AddError summary detail resp =
     resp\<lparr>Diagnostics := AddError summary detail (Diagnostics resp)\<rparr>"

definition State_Set :: "'m \<Rightarrow> 'm Response \<Rightarrow> 'm Response" where
  "State_Set data resp = resp\<lparr>State := Some data\<rparr>"

definition State_RemoveResource :: "'m Response \<Rightarrow> 'm Response" where
  "State_RemoveResource resp = resp\<lparr>State := None\<rparr>"

section \<open>Building the quota request\<close>

text \<open>\<open>rgwQuotaFromSchemaQuota\<close> of the user quota resource (user_quota.go).\<close>

definition rgwQuotaFromSchemaQuota_user :: "UserQuotaResourceModel \<Rightarrow> QuotaSpec" where
  "rgwQuotaFromSchemaQuota_user data =
    (let enabled = ValueBool (uq_Enabled data);
         quota = QuotaSpec_zero\<lparr>UID := ValueString (uq_UID data), QuotaType := ''user'',
                   Enabled := Some enabled, CheckOnRaw := ValueBool (uq_CheckOnRaw data)\<rparr>;
         quota = (if \<not> IsNull (uq_MaxSize data)
                  then quota\<lparr>MaxSize := Some (ValueInt64 (uq_MaxSize data))\<rparr> else quota);
         quota = (if \<not> IsNull (uq_MaxSizeKB data)
                  then quota\<lparr>MaxSizeKb := Some (int_of_int64 (ValueInt64 (uq_MaxSizeKB data)))\<rparr>
                  else quota);
         quota = (if \<not> IsNull (uq_MaxObjects data)
                  then quota\<lparr>MaxObjects := Some (ValueInt64 (uq_MaxObjects data))\<rparr> else quota)
     in quota)"

text \<open>\<open>rgwQuotaFromSchemaQuota\<close> of the generic quota resource.\<close>

definition rgwQuotaFromSchemaQuota :: "QuotaResourceModel \<Rightarrow> QuotaSpec" where
  "rgwQuotaFromSchemaQuota data =
    (let enabled = ValueBool (gq_Enabled data);
         quota = QuotaSpec_zero\<lparr>UID := ValueString (gq_UID data),
                   QuotaType := ValueString (gq_Type data),
                   Enabled := Some enabled, CheckOnRaw := ValueBool (gq_CheckOnRaw data)\<rparr>;
         quota = (if \<not> IsNull (gq_MaxSizeKB data) \<and> ValueInt64 (gq_MaxSizeKB data) \<noteq> 0
                  then quota\<lparr>MaxSizeKb := Some (int_of_int64 (ValueInt64 (gq_MaxSizeKB data)))\<rparr>
                  else quota\<lparr>MaxSize := Some (- 1)\<rparr>);
         quota = (if \<not> IsNull (gq_MaxObjects data)
                  then quota\<lparr>MaxObjects := Some (ValueInt64 (gq_MaxObjects data))\<rparr> else quota)
     in quota)"

text \<open>\<open>rgwBucketQuotaFromSchemaQuota\<close> of the bucket quota resource.\<close>

definition rgwBucketQuotaFromSchemaQuota :: "BucketQuotaResourceModel \<Rightarrow> QuotaSpec" where
  "rgwBucketQuotaFromSchemaQuota data =
    (let enabled = ValueBool (bq_Enabled data);
         quota = QuotaSpec_zero\<lparr>Bucket := ValueString (bq_Bucket data),
                   UID := ValueString (bq_UID data),
                   Enabled := Some enabled, CheckOnRaw := ValueBool (bq_CheckOnRaw data)\<rparr>;
         quota = (if \<not> IsNull (bq_MaxSizeKB data) \<and> ValueInt64 (bq_MaxSizeKB data) \<noteq> 0
                  then quota\<lparr>MaxSizeKb := Some (int_of_int64 (ValueInt64 (bq_MaxSizeKB data)))\<rparr>
                  else quota\<lparr>MaxSize := Some (- 1)\<rparr>);
         quota = (if \<not> IsNull (bq_MaxObjects data)
                  then quota\<lparr>MaxObjects := Some (ValueInt64 (bq_MaxObjects data))\<rparr> else quota)
     in quota)"

section \<open>The user quota resource (user_quota.go)\<close>

text \<open>
  Every handler takes the admin client, the diagnostics and the model that the decoding
  of the plan (Create, Update) or of the prior state (Read, Delete) gives, and the
  response to fill in. It returns the response and the admin calls it made.
\<close>

definition UserQuotaResource_Create ::
  "Admin \<Rightarrow> diagnostic list \<Rightarrow> UserQuotaResourceModel \<Rightarrow> UserQuotaResourceModel Response
     \<Rightarrow> UserQuotaResourceModel Response \<times> api_call list" where
  "UserQuotaResource_Create client get_diags data resp0 =
    (let resp = Diagnostics_Append get_diags resp0 in
     if HasError (Diagnostics resp) then (resp, [])
     else
       let quota = rgwQuotaFromSchemaQuota_user data;
           err = SetUserQuota client quota;
           calls = [Call_SetUserQuota quota]
       in case err of
            Some e \<Rightarrow> (Diagnostics_AddError ''could not create user quota'' (Error e) resp, calls)
          | None \<Rightarrow> (State_Set data resp, calls))"

definition wrong_user_detail :: "string \<Rightarrow> string \<Rightarrow> string" where
  "wrong_user_detail expected got =
     ''expected user '' @ [CHR 0x27] @ expected @ [CHR 0x27] @ '', got '' @ [CHR 0x27] @ got @ [CHR 0x27]"

definition UserQuotaResource_Read ::
  "Admin \<Rightarrow> diagnostic list \<Rightarrow> UserQuotaResourceModel \<Rightarrow> UserQuotaResourceModel Response
     \<Rightarrow> UserQuotaResourceModel Response \<times> api_call list" where
  "UserQuotaResource_Read client get_diags data resp0 =
    (let resp = Diagnostics_Append get_diags resp0 in
     if HasError (Diagnostics resp) then (resp, [])
     else
       let reqQuotaSpec = QuotaSpec_zero\<lparr>UID := ValueString (uq_UID data)\<rparr>;
           (quotaSpec, err) = GetUserQuota client reqQuotaSpec;
           calls = [Call_GetUserQuota reqQuotaSpec]
       in case err of
            Some e \<Rightarrow>
              if errors_Is e ErrNoSuchUser then (State_RemoveResource resp, calls)
              else (Diagnostics_AddError ''could not get user quota'' (Error e) resp, calls)
          | None \<Rightarrow>
              if ValueString (uq_UID data) \<noteq> UID quotaSpec
              then (Diagnostics_AddError ''api returned wrong user''
                      (wrong_user_detail (ValueString (uq_UID data)) (UID quotaSpec)) resp, calls)
              else
                let data = (case Enabled quotaSpec of
                              Some b \<Rightarrow> data\<lparr>uq_Enabled := Known b\<rparr> | None \<Rightarrow> data);
                    data = data\<lparr>uq_CheckOnRaw := Known (CheckOnRaw quotaSpec)\<rparr>;
                    data = (case MaxSize quotaSpec of
                              Some n \<Rightarrow> data\<lparr>uq_MaxSize := Known n\<rparr> | None \<Rightarrow> data);
                    data = (case MaxSizeKb quotaSpec of
                              Some n \<Rightarrow> data\<lparr>uq_MaxSizeKB := Known (int64_of_int n)\<rparr>
                            | None \<Rightarrow> data);
                    data = (case MaxObjects quotaSpec of
                              Some n \<Rightarrow> data\<lparr>uq_MaxObjects := Known n\<rparr> | None \<Rightarrow> data)
                in (State_Set data resp, calls))"

definition UserQuotaResource_Update ::
  "Admin \<Rightarrow> diagnostic list \<Rightarrow> UserQuotaResourceModel \<Rightarrow> UserQuotaResourceModel Response
     \<Rightarrow> UserQuotaResourceModel Response \<times> api_call list" where
  "UserQuotaResource_Update client get_diags data resp0 =
    (let resp = Diagnostics_Append get_diags resp0 in
     if HasError (Diagnostics resp) then (resp, [])
     else
       let quota = rgwQuotaFromSchemaQuota_user data;
           err = SetUserQuota client quota;
           calls = [Call_SetUserQuota quota]
       in case err of
            Some e \<Rightarrow> (Diagnostics_AddError ''could not modify user quota'' (Error e) resp, calls)
          | None \<Rightarrow> (State_Set data resp, calls))"

text \<open>
  Delete keeps both error checks of the source, in their order: the first returns on
  any error, the second is the one that lets \<open>ErrNoSuchUser\<close> pass.
\<close>

definition UserQuotaResource_Delete ::
  "Admin \<Rightarrow> diagnostic list \<Rightarrow> UserQuotaResourceModel \<Rightarrow> UserQuotaResourceModel Response
     \<Rightarrow> UserQuotaResourceModel Response \<times> api_call list" where
  "UserQuotaResource_Delete client get_diags data resp0 =
    (let resp = Diagnostics_Append get_diags resp0 in
     if HasError (Diagnostics resp) then (resp, [])
     else
       let quota = rgwQuotaFromSchemaQuota_user data;
           quota = quota\<lparr>Enabled := Some False\<rparr>;
           err = SetUserQuota client quota;
           calls = [Call_SetUserQuota quota]
       in case err of
            Some e \<Rightarrow> (Diagnostics_AddError ''could not modify user quota'' (Error e) resp, calls)
          | None \<Rightarrow>
              (case err of
                 Some e \<Rightarrow>
                   if \<not> errors_Is e ErrNoSuchUser
                   then (Diagnostics_AddError ''could not delete user quota'' (Error e) resp, calls)
                   else (resp, calls)
               | None \<Rightarrow> (resp, calls)))"

section \<open>The generic quota resource\<close>

definition QuotaResource_Create ::
  "Admin \<Rightarrow> diagnostic list \<Rightarrow> QuotaResourceModel \<Rightarrow> QuotaResourceModel Response
     \<Rightarrow> QuotaResourceModel Response \<times> api_call list" where
  "QuotaResource_Create client get_diags data resp0 =
    (let resp = Diagnostics_Append get_diags resp0 in
     if HasError (Diagnostics resp) then (resp, [])
     else
       let quota = rgwQuotaFromSchemaQuota data;
           (err, calls) = (if ValueString (gq_Type data) = ''user''
                           then (SetUserQuota client quota, [Call_SetUserQuota quota])
                           else (SetBucketQuota client quota, [Call_SetBucketQuota quota]))
       in case err of
            Some e \<Rightarrow> (Diagnostics_AddError ''could not create user quota'' (Error e) resp, calls)
          | None \<Rightarrow>
              let data = (if ValueInt64 (gq_MaxSizeKB data) \<noteq> 0
                          then data\<lparr>gq_MaxSize := Known (ValueInt64 (gq_MaxSizeKB data) * 1024)\<rparr>
                          else data\<lparr>gq_MaxSize := Known (- 1)\<rparr>)
              in (State_Set data resp, calls))"

definition QuotaResource_Read ::
  "Admin \<Rightarrow> diagnostic list \<Rightarrow> QuotaResourceModel \<Rightarrow> QuotaResourceModel Response
     \<Rightarrow> QuotaResourceModel Response \<times> api_call list" where
  "QuotaResource_Read client get_diags data resp0 =
    (let resp = Diagnostics_Append get_diags resp0 in
     if HasError (Diagnostics resp) then (resp, [])
     else
       let reqQuotaSpec = QuotaSpec_zero\<lparr>UID := ValueString (gq_UID data)\<rparr>;
           ((quotaSpec, err), calls) =
              (if ValueString (gq_Type data) = ''user''
               then (GetUserQuota client reqQuotaSpec, [Call_GetUserQuota reqQuotaSpec])
               else (GetBucketQuota client reqQuotaSpec, [Call_GetBucketQuota reqQuotaSpec]))
       in case err of
            Some e \<Rightarrow>
              if errors_Is e ErrNoSuchUser then (State_RemoveResource resp, calls)
              else (Diagnostics_AddError ''could not get user quota'' (Error e) resp, calls)
          | None \<Rightarrow>
              let data = (case Enabled quotaSpec of
                            Some b \<Rightarrow> data\<lparr>gq_Enabled := Known b\<rparr> | None \<Rightarrow> data);
                  data = data\<lparr>gq_CheckOnRaw := Known (CheckOnRaw quotaSpec)\<rparr>;
                  data = (case MaxSize quotaSpec of
                            Some n \<Rightarrow> data\<lparr>gq_MaxSize := Known n\<rparr> | None \<Rightarrow> data);
                  data = (case MaxSizeKb quotaSpec of
                            Some n \<Rightarrow> data\<lparr>gq_MaxSizeKB := Known (int64_of_int n)\<rparr>
                          | None \<Rightarrow> data);
                  data = (case MaxObjects quotaSpec of
                            Some n \<Rightarrow> data\<lparr>gq_MaxObjects := Known n\<rparr> | None \<Rightarrow> data)
              in (State_Set data resp, calls))"

definition QuotaResource_Update ::
  "Admin \<Rightarrow> diagnostic list \<Rightarrow> QuotaResourceModel \<Rightarrow> QuotaResourceModel Response
     \<Rightarrow> QuotaResourceModel Response \<times> api_call list" where
  "QuotaResource_Update client get_diags data resp0 =
    (let resp = Diagnostics_Append get_diags resp0 in
     if HasError (Diagnostics resp) then (resp, [])
     else
       let quota = rgwQuotaFromSchemaQuota data;
           (err, calls) = (if ValueString (gq_Type data) = ''user''
                           then (SetUserQuota client quota, [Call_SetUserQuota quota])
                           else (SetBucketQuota client quota, [Call_SetBucketQuota quota]))
       in case err of
            Some e \<Rightarrow> (Diagnostics_AddError ''could not modify user quota'' (Error e) resp, calls)
          | None \<Rightarrow>
              let data = (if ValueInt64 (gq_MaxSizeKB data) \<noteq> 0
                          then data\<lparr>gq_MaxSize := Known (ValueInt64 (gq_MaxSizeKB data) * 1024)\<rparr>
                          else data\<lparr>gq_MaxSize := Known (- 1)\<rparr>)
              in (State_Set data resp, calls))"

definition QuotaResource_Delete ::
  "Admin \<Rightarrow> diagnostic list \<Rightarrow> QuotaResourceModel \<Rightarrow> QuotaResourceModel Response
     \<Rightarrow> QuotaResourceModel Response \<times> api_call list" where
  "QuotaResource_Delete client get_diags data resp0 =
    (let resp = Diagnostics_Append get_diags resp0 in
     if HasError (Diagnostics resp) then (resp, [])
     else
       let quota = rgwQuotaFromSchemaQuota data;
           quota = quota\<lparr>Enabled := Some False\<rparr>;
           quota = quota\<lparr>MaxSize := Some (- 1)\<rparr>;
           quota = quota\<lparr>MaxSizeKb := None\<rparr>;
           quota = quota\<lparr>MaxObjects := Some (- 1)\<rparr>;
           (err, calls) = (if ValueString (gq_Type data) = ''user''
                           then (SetUserQuota client quota, [Call_SetUserQuota quota])
                           else (SetBucketQuota client quota, [Call_SetBucketQuota quota]))
       in case err of
            Some e \<Rightarrow> (Diagnostics_AddError ''could not modify user quota'' (Error e) resp, calls)
          | None \<Rightarrow>
              (case err of
                 Some e \<Rightarrow>
                   if \<not> errors_Is e ErrNoSuchUser
                   then (Diagnostics_AddError ''could not delete user quota'' (Error e) resp, calls)
                   else (resp, calls)
               | None \<Rightarrow> (resp, calls)))"

section \<open>The bucket quota resource (bucket_quota_resource.go)\<close>

definition BucketQuotaResource_Create ::
  "Admin \<Rightarrow> diagnostic list \<Rightarrow> BucketQuotaResourceModel \<Rightarrow> BucketQuotaResourceModel Response
     \<Rightarrow> BucketQuotaResourceModel Response \<times> api_call list" where
  "BucketQuotaResource_Create client get_diags data resp0 =
    (let resp = Diagnostics_Append get_diags resp0 in
     if HasError (Diagnostics resp) then (resp, [])
     else
       let quota = rgwBucketQuotaFromSchemaQuota data;
           err = SetIndividualBucketQuota client quota;
           calls = [Call_SetIndividualBucketQuota quota]
       in case err of
            Some e \<Rightarrow> (Diagnostics_AddError ''could not create bucket quota'' (Error e) resp, calls)
          | None \<Rightarrow>
              let data = (if ValueInt64 (bq_MaxSizeKB data) \<noteq> 0
                          then data\<lparr>bq_MaxSize := Known (ValueInt64 (bq_MaxSizeKB data) * 1024)\<rparr>
                          else data\<lparr>bq_MaxSize := Known (- 1)\<rparr>)
              in (State_Set data resp, calls))"

definition BucketQuotaResource_Read ::
  "Admin \<Rightarrow> diagnostic list \<Rightarrow> BucketQuotaResourceModel \<Rightarrow> BucketQuotaResourceModel Response
     \<Rightarrow> BucketQuotaResourceModel Response \<times> api_call list" where
  "BucketQuotaResource_Read client get_diags data resp0 =
    (let resp = Diagnostics_Append get_diags resp0 in
     if HasError (Diagnostics resp) then (resp, [])
     else
       let reqBucket = \<lparr>b_Bucket = ValueString (bq_Bucket data), b_BucketQuota = QuotaSpec_zero\<rparr>;
           (bucket, err) = GetBucketInfo client reqBucket;
           calls = [Call_GetBucketInfo reqBucket]
       in case err of
            Some e \<Rightarrow>
              if errors_Is e ErrNoSuchBucket then (State_RemoveResource resp, calls)
              else (Diagnostics_AddError ''could not get bucket quota'' (Error e) resp, calls)
          | None \<Rightarrow>
              let data = (case Enabled (b_BucketQuota bucket) of
                            Some b \<Rightarrow> data\<lparr>bq_Enabled := Known b\<rparr> | None \<Rightarrow> data);
                  data = data\<lparr>bq_CheckOnRaw := Known (CheckOnRaw (b_BucketQuota bucket))\<rparr>;
                  data = (case MaxSize (b_BucketQuota bucket) of
                            Some n \<Rightarrow> data\<lparr>bq_MaxSize := Known n\<rparr> | None \<Rightarrow> data);
                  data = (case MaxSizeKb (b_BucketQuota bucket) of
                            Some n \<Rightarrow> data\<lparr>bq_MaxSizeKB := Known (int64_of_int n)\<rparr>
                          | None \<Rightarrow> data);
                  data = (case MaxObjects (b_BucketQuota bucket) of
                            Some n \<Rightarrow> data\<lparr>bq_MaxObjects := Known n\<rparr> | None \<Rightarrow> data)
              in (State_Set data resp, calls))"

definition BucketQuotaResource_Update ::
  "Admin \<Rightarrow> diagnostic list \<Rightarrow> BucketQuotaResourceModel \<Rightarrow> BucketQuotaResourceModel Response
     \<Rightarrow> BucketQuotaResourceModel Response \<times> api_call list" where
  "BucketQuotaResource_Update client get_diags data resp0 =
    (let resp = Diagnostics_Append get_diags resp0 in
     if HasError (Diagnostics resp) then (resp, [])
     else
       let quota = rgwBucketQuotaFromSchemaQuota data;
           err = SetIndividualBucketQuota client quota;
           calls = [Call_SetIndividualBucketQuota quota]
       in case err of
            Some e \<Rightarrow> (Diagnostics_AddError ''could not modify bucket quota'' (Error e) resp, calls)
          | None \<Rightarrow>
              let data = (if ValueInt64 (bq_MaxSizeKB data) \<noteq> 0
                          then data\<lparr>bq_MaxSize := Known (ValueInt64 (bq_MaxSizeKB data) * 1024)\<rparr>
                          else data\<lparr>bq_MaxSize := Known (- 1)\<rparr>)
              in (State_Set data resp, calls))"

definition BucketQuotaResource_Delete ::
  "Admin \<Rightarrow> diagnostic list \<Rightarrow> BucketQuotaResourceModel \<Rightarrow> BucketQuotaResourceModel Response
     \<Rightarrow> BucketQuotaResourceModel Response \<times> api_call list" where
  "BucketQuotaResource_Delete client get_diags data resp0 =
    (let resp = Diagnostics_Append get_diags resp0 in
     if HasError (Diagnostics resp) then (resp, [])
     else
       let quota = rgwBucketQuotaFromSchemaQuota data;
           quota = quota\<lparr>Enabled := Some False\<rparr>;
           quota = quota\<lparr>MaxSize := Some (- 1)\<rparr>;
           quota = quota\<lparr>MaxSizeKb := None\<rparr>;
           quota = quota\<lparr>MaxObjects := Some (- 1)\<rparr>;
           err = SetIndividualBucketQuota client quota;
           calls = [Call_SetIndividualBucketQuota quota]
       in case err of
            Some e \<Rightarrow> (Diagnostics_AddError ''could not modify bucket quota'' (Error e) resp, calls)
          | None \<Rightarrow>
              (case err of
                 Some e \<Rightarrow>
                   if \<not> errors_Is e ErrNoSuchBucket
                   then (Diagnostics_AddError ''could not delete bucket quota'' (Error e) resp, calls)
                   else (resp, calls)
               | None \<Rightarrow> (resp, calls)))"

section \<open>The bucket link resource\<close>

definition BucketLinkResource_Create ::
  "Admin \<Rightarrow> diagnostic list \<Rightarrow> BucketLinkResourceModel \<Rightarrow> BucketLinkResourceModel Response
     \<Rightarrow> BucketLinkResourceModel Response \<times> api_call list" where
  "BucketLinkResource_Create client get_diags data resp0 =
    (let resp = Diagnostics_Append get_diags resp0 in
     if HasError (Diagnostics resp) then (resp, [])
     else
       let rgwBucketLink = \<lparr>li_Bucket = ValueString (bl_Bucket data),
                             li_UID = ValueString (bl_UID data)\<rparr>;
           err = LinkBucket client rgwBucketLink;
           calls = [Call_LinkBucket rgwBucketLink]
       in case err of
            Some e \<Rightarrow> (Diagnostics_AddError ''could not create bucket link'' (Error e) resp, calls)
          | None \<Rightarrow> (State_Set data resp, calls))"

text \<open>The closure \<open>findString\<close> of the Read handler: a linear search of the slice.\<close>

fun findString :: "string list \<Rightarrow> string \<Rightarrow> bool" where
  "findString [] str = False"
| "findString (item # rest) str = (if item = str then True else findString rest str)"

definition BucketLinkResource_Read ::
  "Admin \<Rightarrow> diagnostic list \<Rightarrow> BucketLinkResourceModel \<Rightarrow> BucketLinkResourceModel Response
     \<Rightarrow> BucketLinkResourceModel Response \<times> api_call list" where
  "BucketLinkResource_Read client get_diags data resp0 =
    (let resp = Diagnostics_Append get_diags resp0 in
     if HasError (Diagnostics resp) then (resp, [])
     else
       let (buckets, err) = ListUsersBuckets client (ValueString (bl_UID data));
           calls = [Call_ListUsersBuckets (ValueString (bl_UID data))]
       in case err of
            Some e \<Rightarrow>
              if errors_Is e ErrNoSuchUser then (State_RemoveResource resp, calls)
              else (Diagnostics_AddError ''could not get user's buckets'' (Error e) resp, calls)
          | None \<Rightarrow>
              if \<not> findString buckets (ValueString (bl_Bucket data))
              then (State_RemoveResource resp, calls)
              else (State_Set data resp, calls))"

definition BucketLinkResource_Update ::
  "Admin \<Rightarrow> diagnostic list \<Rightarrow> BucketLinkResourceModel \<Rightarrow> BucketLinkResourceModel Response
     \<Rightarrow> BucketLinkResourceModel Response \<times> api_call list" where
  "BucketLinkResource_Update client get_diags data resp0 =
    (let resp = Diagnostics_Append get_diags resp0 in
     if HasError (Diagnostics resp) then (resp, [])
     else (State_Set data resp, []))"

definition BucketLinkResource_Delete ::
  "Admin \<Rightarrow> diagnostic list \<Rightarrow> BucketLinkResourceModel \<Rightarrow> BucketLinkResourceModel Response
     \<Rightarrow> BucketLinkResourceModel Response \<times> api_call list" where
  "BucketLinkResource_Delete client get_diags data resp0 =
    (let resp = Diagnostics_Append get_diags resp0 in
     if HasError (Diagnostics resp) then (resp, [])
     else
       let (err, calls) =
             (if IsNull (bl_UnlinkToUID data)
              then (let input = \<lparr>li_Bucket = ValueString (bl_Bucket data),
                                   li_UID = ValueString (bl_UID data)\<rparr>
                    in (UnlinkBucket client input, [Call_UnlinkBucket input]))
              else (let input = \<lparr>li_Bucket = ValueString (bl_Bucket data),
                                   li_UID = ValueString (bl_UnlinkToUID data)\<rparr>
                    in (LinkBucket client input, [Call_LinkBucket input])))
       in case err of
            Some e \<Rightarrow>
              if \<not> errors_Is e ErrNoSuchBucket
              then (Diagnostics_AddError ''could not delete bucket link'' (Error e) resp, calls)
              else (resp, calls)
          | None \<Rightarrow> (resp, calls))"

section \<open>Example inputs\<close>

text \<open>
  Concrete clients, models and responses at which the theorems below are instantiated:
  a client whose every call succeeds, and a client whose every call fails with a given
  error.
\<close>

definition example_quota :: QuotaSpec where
  "example_quota = \<lparr>UID = ''alice'', Bucket = [], QuotaType = ''user'', Enabled = Some False,
     CheckOnRaw = True, MaxSize = Some 8192, MaxSizeKb = None, MaxObjects = Some 100\<rparr>"

definition admin_ok :: Admin where
  "admin_ok = \<lparr>
     SetUserQuota = (\<lambda>q. None),
     SetBucketQuota = (\<lambda>q. None),
     SetIndividualBucketQuota = (\<lambda>q. None),
     GetUserQuota = (\<lambda>q. (example_quota, None)),
     GetBucketQuota = (\<lambda>q. (example_quota, None)),
     GetBucketInfo = (\<lambda>b. (\<lparr>b_Bucket = b_Bucket b, b_BucketQuota = example_quota\<rparr>, None)),
     ListUsersBuckets = (\<lambda>u. ([''logs'', ''photos''], None)),
     LinkBucket = (\<lambda>i. None),
     UnlinkBucket = (\<lambda>i. None)\<rparr>"

definition admin_failing :: "go_error \<Rightarrow> Admin" where
  "admin_failing e = \<lparr>
     SetUserQuota = (\<lambda>q. Some e),
     SetBucketQuota = (\<lambda>q. Some e),
     SetIndividualBucketQuota = (\<lambda>q. Some e),
     GetUserQuota = (\<lambda>q. (QuotaSpec_zero, Some e)),
     GetBucketQuota = (\<lambda>q. (QuotaSpec_zero, Some e)),
     GetBucketInfo = (\<lambda>b. (\<lparr>b_Bucket = [], b_BucketQuota = QuotaSpec_zero\<rparr>, Some e)),
     ListUsersBuckets = (\<lambda>u. ([], Some e)),
     LinkBucket = (\<lambda>i. Some e),
     UnlinkBucket = (\<lambda>i. Some e)\<rparr>"

definition uq_alice :: UserQuotaResourceModel where
  "uq_alice = \<lparr>uq_UID = Known ''alice'', uq_Enabled = Known True, uq_CheckOnRaw = Known False,
     uq_MaxSize = Null, uq_MaxSizeKB = Known 4, uq_MaxObjects = Null\<rparr>"

definition gq_alice :: QuotaResourceModel where
  "gq_alice = \<lparr>gq_UID = Known ''alice'', gq_Type = Known ''user'', gq_Enabled = Known True,
     gq_CheckOnRaw = Known False, gq_MaxSize = Unknown, gq_MaxSizeKB = Known 4,
     gq_MaxObjects = Known (- 1)\<rparr>"

definition bq_photos :: BucketQuotaResourceModel where
  "bq_photos = \<lparr>bq_Bucket = Known ''photos'', bq_UID = Known ''alice'', bq_Enabled = Known True,
     bq_CheckOnRaw = Known False, bq_MaxSize = Unknown, bq_MaxSizeKB = Known 0,
     bq_MaxObjects = Null\<rparr>"

definition bl_photos :: BucketLinkResourceModel where
  "bl_photos = \<lparr>bl_UID = Known ''alice'', bl_Bucket = Known ''photos'', bl_UnlinkToUID = Null\<rparr>"

definition bl_attic :: BucketLinkResourceModel where
  "bl_attic = \<lparr>bl_UID = Known ''alice'', bl_Bucket = Known ''attic'',
     bl_UnlinkToUID = Known ''bob''\<rparr>"

definition Response_empty :: "'m Response" where
  "Response_empty = \<lparr>State = None, Diagnostics = []\<rparr>"

definition Response_of :: "'m \<Rightarrow> 'm Response" where
  "Response_of data = \<lparr>State = Some data, Diagnostics = []\<rparr>"

section \<open>Basic facts\<close>

lemma set_Append: "set (Append ds es) = set ds \<union> set es"
  by (induction es arbitrary: ds) auto

lemma set_AddError: "set (AddError s d ds) = insert (ErrorDiagnostic s d) (set ds)"
  by (auto simp: AddError_def set_Append)

lemma AddError_fresh:
  "\<not> HasError ds \<Longrightarrow> AddError s d ds = ds @ [ErrorDiagnostic s d]"
  by (auto simp: AddError_def HasError_def list_ex_iff)

lemma findString_iff: "findString xs s \<longleftrightarrow> s \<in> set xs"
  by (induction xs) auto

lemma int_conversions: "int_of_int64 n = n" "int64_of_int n = n"
  by (simp_all add: int_of_int64_def int64_of_int_def)

lemmas resp_defs = Diagnostics_Append_def Diagnostics_AddError_def State_Set_def
  State_RemoveResource_def

lemmas example_defs = example_quota_def admin_ok_def admin_failing_def uq_alice_def
  gq_alice_def bq_photos_def bl_photos_def bl_attic_def Response_empty_def Response_of_def
  QuotaSpec_zero_def

section \<open>The handlers, case by case\<close>

text \<open>
  What each handler returns once the decoding of the plan or of the prior state has
  left no error diagnostic: one lemma for a failing remote call, one for a successful
  one. An error diagnostic added to a collection without errors is new, so it is
  appended at the end.
\<close>

lemma UserQuotaResource_Create_error:
  assumes "\<not> HasError (Append (Diagnostics resp) gd)"
    and "SetUserQuota client (rgwQuotaFromSchemaQuota_user data) = Some e"
  shows "UserQuotaResource_Create client gd data resp =
           (resp\<lparr>Diagnostics := Append (Diagnostics resp) gd @
                    [ErrorDiagnostic ''could not create user quota'' (Error e)]\<rparr>,
            [Call_SetUserQuota (rgwQuotaFromSchemaQuota_user data)])"
  using assms
  by (simp add: UserQuotaResource_Create_def resp_defs Let_def AddError_fresh int_conversions
      split: if_splits option.splits)

lemma UserQuotaResource_Create_ok:
  assumes "\<not> HasError (Append (Diagnostics resp) gd)"
    and "SetUserQuota client (rgwQuotaFromSchemaQuota_user data) = None"
  shows "UserQuotaResource_Create client gd data resp =
           (resp\<lparr>State := Some data,
                  Diagnostics := Append (Diagnostics resp) gd\<rparr>,
            [Call_SetUserQuota (rgwQuotaFromSchemaQuota_user data)])"
  using assms
  by (simp add: UserQuotaResource_Create_def resp_defs Let_def AddError_fresh int_conversions
      split: if_splits option.splits)

lemma UserQuotaResource_Update_error:
  assumes "\<not> HasError (Append (Diagnostics resp) gd)"
    and "SetUserQuota client (rgwQuotaFromSchemaQuota_user data) = Some e"
  shows "UserQuotaResource_Update client gd data resp =
           (resp\<lparr>Diagnostics := Append (Diagnostics resp) gd @
                    [ErrorDiagnostic ''could not modify user quota'' (Error e)]\<rparr>,
            [Call_SetUserQuota (rgwQuotaFromSchemaQuota_user data)])"
  using assms
  by (simp add: UserQuotaResource_Update_def resp_defs Let_def AddError_fresh int_conversions
      split: if_splits option.splits)

lemma UserQuotaResource_Update_ok:
  assumes "\<not> HasError (Append (Diagnostics resp) gd)"
    and "SetUserQuota client (rgwQuotaFromSchemaQuota_user data) = None"
  shows "UserQuotaResource_Update client gd data resp =
           (resp\<lparr>State := Some data,
                  Diagnostics := Append (Diagnostics resp) gd\<rparr>,
            [Call_SetUserQuota (rgwQuotaFromSchemaQuota_user data)])"
  using assms
  by (simp add: UserQuotaResource_Update_def resp_defs Let_def AddError_fresh int_conversions
      split: if_splits option.splits)

lemma UserQuotaResource_Delete_error:
  assumes "\<not> HasError (Append (Diagnostics resp) gd)"
    and "SetUserQuota client ((rgwQuotaFromSchemaQuota_user data)\<lparr>Enabled := Some False\<rparr>) = Some e"
  shows "UserQuotaResource_Delete client gd data resp =
           (resp\<lparr>Diagnostics := Append (Diagnostics resp) gd @
                    [ErrorDiagnostic ''could not modify user quota'' (Error e)]\<rparr>,
            [Call_SetUserQuota ((rgwQuotaFromSchemaQuota_user data)\<lparr>Enabled := Some False\<rparr>)])"
  using assms
  by (simp add: UserQuotaResource_Delete_def resp_defs Let_def AddError_fresh int_conversions
      split: if_splits option.splits)

lemma UserQuotaResource_Delete_ok:
  assumes "\<not> HasError (Append (Diagnostics resp) gd)"
    and "SetUserQuota client ((rgwQuotaFromSchemaQuota_user data)\<lparr>Enabled := Some False\<rparr>) = None"
  shows "UserQuotaResource_Delete client gd data resp =
           (resp\<lparr>Diagnostics := Append (Diagnostics resp) gd\<rparr>,
            [Call_SetUserQuota ((rgwQuotaFromSchemaQuota_user data)\<lparr>Enabled := Some False\<rparr>)])"
  using assms
  by (simp add: UserQuotaResource_Delete_def resp_defs Let_def AddError_fresh int_conversions
      split: if_splits option.splits)

lemma QuotaResource_Create_error:
  assumes "\<not> HasError (Append (Diagnostics resp) gd)"
    and "(if ValueString (gq_Type data) = ''user''
          then SetUserQuota client (rgwQuotaFromSchemaQuota data)
          else SetBucketQuota client (rgwQuotaFromSchemaQuota data)) = Some e"
  shows "QuotaResource_Create client gd data resp =
           (resp\<lparr>Diagnostics := Append (Diagnostics resp) gd @
                    [ErrorDiagnostic ''could not create user quota'' (Error e)]\<rparr>,
            [(if ValueString (gq_Type data) = ''user''
             then Call_SetUserQuota (rgwQuotaFromSchemaQuota data)
             else Call_SetBucketQuota (rgwQuotaFromSchemaQuota data))])"
  using assms
  by (simp add: QuotaResource_Create_def resp_defs Let_def AddError_fresh int_conversions
      split: if_splits option.splits)

lemma QuotaResource_Create_ok:
  assumes "\<not> HasError (Append (Diagnostics resp) gd)"
    and "(if ValueString (gq_Type data) = ''user''
          then SetUserQuota client (rgwQuotaFromSchemaQuota data)
          else SetBucketQuota client (rgwQuotaFromSchemaQuota data)) = None"
  shows "QuotaResource_Create client gd data resp =
           (resp\<lparr>State := Some (data\<lparr>gq_MaxSize := Known (if ValueInt64 (gq_MaxSizeKB data) \<noteq> 0
                      then ValueInt64 (gq_MaxSizeKB data) * 1024 else - 1)\<rparr>),
                  Diagnostics := Append (Diagnostics resp) gd\<rparr>,
            [(if ValueString (gq_Type data) = ''user''
             then Call_SetUserQuota (rgwQuotaFromSchemaQuota data)
             else Call_SetBucketQuota (rgwQuotaFromSchemaQuota data))])"
  using assms
  by (simp add: QuotaResource_Create_def resp_defs Let_def AddError_fresh int_conversions
      split: if_splits option.splits)

lemma QuotaResource_Update_error:
  assumes "\<not> HasError (Append (Diagnostics resp) gd)"
    and "(if ValueString (gq_Type data) = ''user''
          then SetUserQuota client (rgwQuotaFromSchemaQuota data)
          else SetBucketQuota client (rgwQuotaFromSchemaQuota data)) = Some e"
  shows "QuotaResource_Update client gd data resp =
           (resp\<lparr>Diagnostics := Append (Diagnostics resp) gd @
                    [ErrorDiagnostic ''could not modify user quota'' (Error e)]\<rparr>,
            [(if ValueString (gq_Type data) = ''user''
             then Call_SetUserQuota (rgwQuotaFromSchemaQuota data)
             else Call_SetBucketQuota (rgwQuotaFromSchemaQuota data))])"
  using assms
  by (simp add: QuotaResource_Update_def resp_defs Let_def AddError_fresh int_conversions
      split: if_splits option.splits)

lemma QuotaResource_Update_ok:
  assumes "\<not> HasError (Append (Diagnostics resp) gd)"
    and "(if ValueString (gq_Type data) = ''user''
          then SetUserQuota client (rgwQuotaFromSchemaQuota data)
          else SetBucketQuota client (rgwQuotaFromSchemaQuota data)) = None"
  shows "QuotaResource_Update client gd data resp =
           (resp\<lparr>State := Some (data\<lparr>gq_MaxSize := Known (if ValueInt64 (gq_MaxSizeKB data) \<noteq> 0
                      then ValueInt64 (gq_MaxSizeKB data) * 1024 else - 1)\<rparr>),
                  Diagnostics := Append (Diagnostics resp) gd\<rparr>,
            [(if ValueString (gq_Type data) = ''user''
             then Call_SetUserQuota (rgwQuotaFromSchemaQuota data)
             else Call_SetBucketQuota (rgwQuotaFromSchemaQuota data))])"
  using assms
  by (simp add: QuotaResource_Update_def resp_defs Let_def AddError_fresh int_conversions
      split: if_splits option.splits)

lemma QuotaResource_Delete_error:
  assumes "\<not> HasError (Append (Diagnostics resp) gd)"
    and "(if ValueString (gq_Type data) = ''user''
          then SetUserQuota client ((rgwQuotaFromSchemaQuota data)\<lparr>Enabled := Some False, MaxSize := Some (- 1),
                MaxSizeKb := None, MaxObjects := Some (- 1)\<rparr>)
          else SetBucketQuota client ((rgwQuotaFromSchemaQuota data)\<lparr>Enabled := Some False, MaxSize := Some (- 1),
                MaxSizeKb := None, MaxObjects := Some (- 1)\<rparr>)) = Some e"
  shows "QuotaResource_Delete client gd data resp =
           (resp\<lparr>Diagnostics := Append (Diagnostics resp) gd @
                    [ErrorDiagnostic ''could not modify user quota'' (Error e)]\<rparr>,
            [(if ValueString (gq_Type data) = ''user''
             then Call_SetUserQuota ((rgwQuotaFromSchemaQuota data)\<lparr>Enabled := Some False, MaxSize := Some (- 1),
                MaxSizeKb := None, MaxObjects := Some (- 1)\<rparr>)
             else Call_SetBucketQuota ((rgwQuotaFromSchemaQuota data)\<lparr>Enabled := Some False, MaxSize := Some (- 1),
                MaxSizeKb := None, MaxObjects := Some (- 1)\<rparr>))])"
  using assms
  by (simp add: QuotaResource_Delete_def resp_defs Let_def AddError_fresh int_conversions
      split: if_splits option.splits)

lemma QuotaResource_Delete_ok:
  assumes "\<not> HasError (Append (Diagnostics resp) gd)"
    and "(if ValueString (gq_Type data) = ''user''
          then SetUserQuota client ((rgwQuotaFromSchemaQuota data)\<lparr>Enabled := Some False, MaxSize := Some (- 1),
                MaxSizeKb := None, MaxObjects := Some (- 1)\<rparr>)
          else SetBucketQuota client ((rgwQuotaFromSchemaQuota data)\<lparr>Enabled := Some False, MaxSize := Some (- 1),
                MaxSizeKb := None, MaxObjects := Some (- 1)\<rparr>)) = None"
  shows "QuotaResource_Delete client gd data resp =
           (resp\<lparr>Diagnostics := Append (Diagnostics resp) gd\<rparr>,
            [(if ValueString (gq_Type data) = ''user''
             then Call_SetUserQuota ((rgwQuotaFromSchemaQuota data)\<lparr>Enabled := Some False, MaxSize := Some (- 1),
                MaxSizeKb := None, MaxObjects := Some (- 1)\<rparr>)
             else Call_SetBucketQuota ((rgwQuotaFromSchemaQuota data)\<lparr>Enabled := Some False, MaxSize := Some (- 1),
                MaxSizeKb := None, MaxObjects := Some (- 1)\<rparr>))])"
  using assms
  by (simp add: QuotaResource_Delete_def resp_defs Let_def AddError_fresh int_conversions
      split: if_splits option.splits)

lemma BucketQuotaResource_Create_error:
  assumes "\<not> HasError (Append (Diagnostics resp) gd)"
    and "SetIndividualBucketQuota client (rgwBucketQuotaFromSchemaQuota data) = Some e"
  shows "BucketQuotaResource_Create client gd data resp =
           (resp\<lparr>Diagnostics := Append (Diagnostics resp) gd @
                    [ErrorDiagnostic ''could not create bucket quota'' (Error e)]\<rparr>,
            [Call_SetIndividualBucketQuota (rgwBucketQuotaFromSchemaQuota data)])"
  using assms
  by (simp add: BucketQuotaResource_Create_def resp_defs Let_def AddError_fresh int_conversions
      split: if_splits option.splits)

lemma BucketQuotaResource_Create_ok:
  assumes "\<not> HasError (Append (Diagnostics resp) gd)"
    and "SetIndividualBucketQuota client (rgwBucketQuotaFromSchemaQuota data) = None"
  shows "BucketQuotaResource_Create client gd data resp =
           (resp\<lparr>State := Some (data\<lparr>bq_MaxSize := Known (if ValueInt64 (bq_MaxSizeKB data) \<noteq> 0
                      then ValueInt64 (bq_MaxSizeKB data) * 1024 else - 1)\<rparr>),
                  Diagnostics := Append (Diagnostics resp) gd\<rparr>,
            [Call_SetIndividualBucketQuota (rgwBucketQuotaFromSchemaQuota data)])"
  using assms
  by (simp add: BucketQuotaResource_Create_def resp_defs Let_def AddError_fresh int_conversions
      split: if_splits option.splits)

lemma BucketQuotaResource_Update_error:
  assumes "\<not> HasError (Append (Diagnostics resp) gd)"
    and "SetIndividualBucketQuota client (rgwBucketQuotaFromSchemaQuota data) = Some e"
  shows "BucketQuotaResource_Update client gd data resp =
           (resp\<lparr>Diagnostics := Append (Diagnostics resp) gd @
                    [ErrorDiagnostic ''could not modify bucket quota'' (Error e)]\<rparr>,
            [Call_SetIndividualBucketQuota (rgwBucketQuotaFromSchemaQuota data)])"
  using assms
  by (simp add: BucketQuotaResource_Update_def resp_defs Let_def AddError_fresh int_conversions
      split: if_splits option.splits)

lemma BucketQuotaResource_Update_ok:
  assumes "\<not> HasError (Append (Diagnostics resp) gd)"
    and "SetIndividualBucketQuota client (rgwBucketQuotaFromSchemaQuota data) = None"
  shows "BucketQuotaResource_Update client gd data resp =
           (resp\<lparr>State := Some (data\<lparr>bq_MaxSize := Known (if ValueInt64 (bq_MaxSizeKB data) \<noteq> 0
                      then ValueInt64 (bq_MaxSizeKB data) * 1024 else - 1)\<rparr>),
                  Diagnostics := Append (Diagnostics resp) gd\<rparr>,
            [Call_SetIndividualBucketQuota (rgwBucketQuotaFromSchemaQuota data)])"
  using assms
  by (simp add: BucketQuotaResource_Update_def resp_defs Let_def AddError_fresh int_conversions
      split: if_splits option.splits)

lemma BucketQuotaResource_Delete_error:
  assumes "\<not> HasError (Append (Diagnostics resp) gd)"
    and "SetIndividualBucketQuota client ((rgwBucketQuotaFromSchemaQuota data)\<lparr>Enabled := Some False, MaxSize := Some (- 1),
                MaxSizeKb := None, MaxObjects := Some (- 1)\<rparr>) = Some e"
  shows "BucketQuotaResource_Delete client gd data resp =
           (resp\<lparr>Diagnostics := Append (Diagnostics resp) gd @
                    [ErrorDiagnostic ''could not modify bucket quota'' (Error e)]\<rparr>,
            [Call_SetIndividualBucketQuota ((rgwBucketQuotaFromSchemaQuota data)\<lparr>Enabled := Some False, MaxSize := Some (- 1),
                MaxSizeKb := None, MaxObjects := Some (- 1)\<rparr>)])"
  using assms
  by (simp add: BucketQuotaResource_Delete_def resp_defs Let_def AddError_fresh int_conversions
      split: if_splits option.splits)

lemma BucketQuotaResource_Delete_ok:
  assumes "\<not> HasError (Append (Diagnostics resp) gd)"
    and "SetIndividualBucketQuota client ((rgwBucketQuotaFromSchemaQuota data)\<lparr>Enabled := Some False, MaxSize := Some (- 1),
                MaxSizeKb := None, MaxObjects := Some (- 1)\<rparr>) = None"
  shows "BucketQuotaResource_Delete client gd data resp =
           (resp\<lparr>Diagnostics := Append (Diagnostics resp) gd\<rparr>,
            [Call_SetIndividualBucketQuota ((rgwBucketQuotaFromSchemaQuota data)\<lparr>Enabled := Some False, MaxSize := Some (- 1),
                MaxSizeKb := None, MaxObjects := Some (- 1)\<rparr>)])"
  using assms
  by (simp add: BucketQuotaResource_Delete_def resp_defs Let_def AddError_fresh int_conversions
      split: if_splits option.splits)


lemma UserQuotaResource_Read_error:
  assumes "\<not> HasError (Append (Diagnostics resp) gd)"
    and "GetUserQuota client (QuotaSpec_zero\<lparr>UID := ValueString (uq_UID data)\<rparr>) = (q, Some e)"
  shows "UserQuotaResource_Read client gd data resp =
           (if errors_Is e ErrNoSuchUser
            then resp\<lparr>State := None, Diagnostics := Append (Diagnostics resp) gd\<rparr>
            else resp\<lparr>Diagnostics := Append (Diagnostics resp) gd @
                        [ErrorDiagnostic ''could not get user quota'' (Error e)]\<rparr>,
            [Call_GetUserQuota (QuotaSpec_zero\<lparr>UID := ValueString (uq_UID data)\<rparr>)])"
  using assms
  by (simp add: UserQuotaResource_Read_def resp_defs Let_def AddError_fresh)

lemma UserQuotaResource_Read_wrong_user:
  assumes "\<not> HasError (Append (Diagnostics resp) gd)"
    and "GetUserQuota client (QuotaSpec_zero\<lparr>UID := ValueString (uq_UID data)\<rparr>) = (q, None)"
    and "ValueString (uq_UID data) \<noteq> UID q"
  shows "UserQuotaResource_Read client gd data resp =
           (resp\<lparr>Diagnostics := Append (Diagnostics resp) gd @
                    [ErrorDiagnostic ''api returned wrong user''
                       (wrong_user_detail (ValueString (uq_UID data)) (UID q))]\<rparr>,
            [Call_GetUserQuota (QuotaSpec_zero\<lparr>UID := ValueString (uq_UID data)\<rparr>)])"
  using assms
  by (simp add: UserQuotaResource_Read_def resp_defs Let_def AddError_fresh)

lemma UserQuotaResource_Read_ok:
  assumes "\<not> HasError (Append (Diagnostics resp) gd)"
    and "GetUserQuota client (QuotaSpec_zero\<lparr>UID := ValueString (uq_UID data)\<rparr>) = (q, None)"
    and "ValueString (uq_UID data) = UID q"
  shows "UserQuotaResource_Read client gd data resp =
           (resp\<lparr>State := Some (data\<lparr>
                      uq_Enabled := (case Enabled q of Some b \<Rightarrow> Known b | None \<Rightarrow> uq_Enabled data),
                      uq_CheckOnRaw := Known (CheckOnRaw q),
                      uq_MaxSize := (case MaxSize q of Some n \<Rightarrow> Known n | None \<Rightarrow> uq_MaxSize data),
                      uq_MaxSizeKB :=
                        (case MaxSizeKb q of Some n \<Rightarrow> Known n | None \<Rightarrow> uq_MaxSizeKB data),
                      uq_MaxObjects :=
                        (case MaxObjects q of Some n \<Rightarrow> Known n | None \<Rightarrow> uq_MaxObjects data)\<rparr>),
                  Diagnostics := Append (Diagnostics resp) gd\<rparr>,
            [Call_GetUserQuota (QuotaSpec_zero\<lparr>UID := ValueString (uq_UID data)\<rparr>)])"
  using assms
  by (simp add: UserQuotaResource_Read_def resp_defs Let_def int_conversions
      split: option.splits)

lemma QuotaResource_Read_error:
  assumes "\<not> HasError (Append (Diagnostics resp) gd)"
    and "(if ValueString (gq_Type data) = ''user''
          then GetUserQuota client (QuotaSpec_zero\<lparr>UID := ValueString (gq_UID data)\<rparr>)
          else GetBucketQuota client (QuotaSpec_zero\<lparr>UID := ValueString (gq_UID data)\<rparr>))
         = (q, Some e)"
  shows "QuotaResource_Read client gd data resp =
           (if errors_Is e ErrNoSuchUser
            then resp\<lparr>State := None, Diagnostics := Append (Diagnostics resp) gd\<rparr>
            else resp\<lparr>Diagnostics := Append (Diagnostics resp) gd @
                        [ErrorDiagnostic ''could not get user quota'' (Error e)]\<rparr>,
            [if ValueString (gq_Type data) = ''user''
             then Call_GetUserQuota (QuotaSpec_zero\<lparr>UID := ValueString (gq_UID data)\<rparr>)
             else Call_GetBucketQuota (QuotaSpec_zero\<lparr>UID := ValueString (gq_UID data)\<rparr>)])"
  using assms
  by (simp add: QuotaResource_Read_def resp_defs Let_def AddError_fresh split: if_splits)

lemma QuotaResource_Read_ok:
  assumes "\<not> HasError (Append (Diagnostics resp) gd)"
    and "(if ValueString (gq_Type data) = ''user''
          then GetUserQuota client (QuotaSpec_zero\<lparr>UID := ValueString (gq_UID data)\<rparr>)
          else GetBucketQuota client (QuotaSpec_zero\<lparr>UID := ValueString (gq_UID data)\<rparr>))
         = (q, None)"
  shows "QuotaResource_Read client gd data resp =
           (resp\<lparr>State := Some (data\<lparr>
                      gq_Enabled := (case Enabled q of Some b \<Rightarrow> Known b | None \<Rightarrow> gq_Enabled data),
                      gq_CheckOnRaw := Known (CheckOnRaw q),
                      gq_MaxSize := (case MaxSize q of Some n \<Rightarrow> Known n | None \<Rightarrow> gq_MaxSize data),
                      gq_MaxSizeKB :=
                        (case MaxSizeKb q of Some n \<Rightarrow> Known n | None \<Rightarrow> gq_MaxSizeKB data),
                      gq_MaxObjects :=
                        (case MaxObjects q of Some n \<Rightarrow> Known n | None \<Rightarrow> gq_MaxObjects data)\<rparr>),
                  Diagnostics := Append (Diagnostics resp) gd\<rparr>,
            [if ValueString (gq_Type data) = ''user''
             then Call_GetUserQuota (QuotaSpec_zero\<lparr>UID := ValueString (gq_UID data)\<rparr>)
             else Call_GetBucketQuota (QuotaSpec_zero\<lparr>UID := ValueString (gq_UID data)\<rparr>)])"
  using assms
  by (simp add: QuotaResource_Read_def resp_defs Let_def int_conversions
      split: if_splits option.splits)

lemma BucketQuotaResource_Read_error:
  assumes "\<not> HasError (Append (Diagnostics resp) gd)"
    and "GetBucketInfo client
           \<lparr>b_Bucket = ValueString (bq_Bucket data), b_BucketQuota = QuotaSpec_zero\<rparr>
         = (b, Some e)"
  shows "BucketQuotaResource_Read client gd data resp =
           (if errors_Is e ErrNoSuchBucket
            then resp\<lparr>State := None, Diagnostics := Append (Diagnostics resp) gd\<rparr>
            else resp\<lparr>Diagnostics := Append (Diagnostics resp) gd @
                        [ErrorDiagnostic ''could not get bucket quota'' (Error e)]\<rparr>,
            [Call_GetBucketInfo
               \<lparr>b_Bucket = ValueString (bq_Bucket data), b_BucketQuota = QuotaSpec_zero\<rparr>])"
  using assms
  by (simp add: BucketQuotaResource_Read_def resp_defs Let_def AddError_fresh)

lemma BucketQuotaResource_Read_ok:
  assumes "\<not> HasError (Append (Diagnostics resp) gd)"
    and "GetBucketInfo client
           \<lparr>b_Bucket = ValueString (bq_Bucket data), b_BucketQuota = QuotaSpec_zero\<rparr>
         = (b, None)"
  shows "BucketQuotaResource_Read client gd data resp =
           (resp\<lparr>State := Some (data\<lparr>
                      bq_Enabled := (case Enabled (b_BucketQuota b) of
                                       Some v \<Rightarrow> Known v | None \<Rightarrow> bq_Enabled data),
                      bq_CheckOnRaw := Known (CheckOnRaw (b_BucketQuota b)),
                      bq_MaxSize := (case MaxSize (b_BucketQuota b) of
                                       Some n \<Rightarrow> Known n | None \<Rightarrow> bq_MaxSize data),
                      bq_MaxSizeKB := (case MaxSizeKb (b_BucketQuota b) of
                                         Some n \<Rightarrow> Known n | None \<Rightarrow> bq_MaxSizeKB data),
                      bq_MaxObjects := (case MaxObjects (b_BucketQuota b) of
                                          Some n \<Rightarrow> Known n | None \<Rightarrow> bq_MaxObjects data)\<rparr>),
                  Diagnostics := Append (Diagnostics resp) gd\<rparr>,
            [Call_GetBucketInfo
               \<lparr>b_Bucket = ValueString (bq_Bucket data), b_BucketQuota = QuotaSpec_zero\<rparr>])"
  using assms
  by (simp add: BucketQuotaResource_Read_def resp_defs Let_def int_conversions
      split: option.splits)

lemma BucketLinkResource_Create_error:
  assumes "\<not> HasError (Append (Diagnostics resp) gd)"
    and "LinkBucket client
           \<lparr>li_Bucket = ValueString (bl_Bucket data), li_UID = ValueString (bl_UID data)\<rparr>
         = Some e"
  shows "BucketLinkResource_Create client gd data resp =
           (resp\<lparr>Diagnostics := Append (Diagnostics resp) gd @
                    [ErrorDiagnostic ''could not create bucket link'' (Error e)]\<rparr>,
            [Call_LinkBucket
               \<lparr>li_Bucket = ValueString (bl_Bucket data), li_UID = ValueString (bl_UID data)\<rparr>])"
  using assms
  by (simp add: BucketLinkResource_Create_def resp_defs Let_def AddError_fresh)

lemma BucketLinkResource_Read_error:
  assumes "\<not> HasError (Append (Diagnostics resp) gd)"
    and "ListUsersBuckets client (ValueString (bl_UID data)) = (buckets, Some e)"
  shows "BucketLinkResource_Read client gd data resp =
           (if errors_Is e ErrNoSuchUser
            then resp\<lparr>State := None, Diagnostics := Append (Diagnostics resp) gd\<rparr>
            else resp\<lparr>Diagnostics := Append (Diagnostics resp) gd @
                        [ErrorDiagnostic ''could not get user's buckets'' (Error e)]\<rparr>,
            [Call_ListUsersBuckets (ValueString (bl_UID data))])"
  using assms
  by (simp add: BucketLinkResource_Read_def resp_defs Let_def AddError_fresh)

lemma BucketLinkResource_Read_ok:
  assumes "\<not> HasError (Append (Diagnostics resp) gd)"
    and "ListUsersBuckets client (ValueString (bl_UID data)) = (buckets, None)"
  shows "BucketLinkResource_Read client gd data resp =
           (if ValueString (bl_Bucket data) \<in> set buckets
            then resp\<lparr>State := Some data, Diagnostics := Append (Diagnostics resp) gd\<rparr>
            else resp\<lparr>State := None, Diagnostics := Append (Diagnostics resp) gd\<rparr>,
            [Call_ListUsersBuckets (ValueString (bl_UID data))])"
  using assms
  by (simp add: BucketLinkResource_Read_def resp_defs Let_def findString_iff)

lemma BucketLinkResource_Delete_calls:
  assumes "\<not> HasError (Append (Diagnostics resp) gd)"
  shows "snd (BucketLinkResource_Delete client gd data resp) =
           [if IsNull (bl_UnlinkToUID data)
            then Call_UnlinkBucket \<lparr>li_Bucket = ValueString (bl_Bucket data),
                                    li_UID = ValueString (bl_UID data)\<rparr>
            else Call_LinkBucket \<lparr>li_Bucket = ValueString (bl_Bucket data),
                                  li_UID = ValueString (bl_UnlinkToUID data)\<rparr>]"
  using assms
  by (simp add: BucketLinkResource_Delete_def resp_defs Let_def
      split: if_splits option.splits)

lemma BucketLinkResource_Delete_result:
  assumes "\<not> HasError (Append (Diagnostics resp) gd)"
    and "(if IsNull (bl_UnlinkToUID data)
          then UnlinkBucket client \<lparr>li_Bucket = ValueString (bl_Bucket data),
                                     li_UID = ValueString (bl_UID data)\<rparr>
          else LinkBucket client \<lparr>li_Bucket = ValueString (bl_Bucket data),
                                   li_UID = ValueString (bl_UnlinkToUID data)\<rparr>) = err"
  shows "fst (BucketLinkResource_Delete client gd data resp) =
           (case err of
              None \<Rightarrow> resp\<lparr>Diagnostics := Append (Diagnostics resp) gd\<rparr>
            | Some e \<Rightarrow>
                if errors_Is e ErrNoSuchBucket
                then resp\<lparr>Diagnostics := Append (Diagnostics resp) gd\<rparr>
                else resp\<lparr>Diagnostics := Append (Diagnostics resp) gd @
                            [ErrorDiagnostic ''could not delete bucket link'' (Error e)]\<rparr>)"
  using assms
  by (auto simp: BucketLinkResource_Delete_def resp_defs Let_def AddError_fresh
      split: if_splits option.splits)

lemma no_error_in_clean:
  "\<not> HasError ds \<Longrightarrow> ErrorDiagnostic s d \<notin> set ds"
  by (auto simp: HasError_def list_ex_iff)

lemma IsNull_ValueInt64: "IsNull a \<Longrightarrow> ValueInt64 a = 0"
  by (cases a) simp_all

text \<open>
  Go multiplies \<open>int64\<close> values modulo \<open>2 ^ 64\<close>. For a \<open>max_size_kb\<close> between
  \<open>- 2 ^ 53\<close> and \<open>2 ^ 53\<close> the product with 1024 does not wrap around.
\<close>

lemma times_1024_exact:
  fixes n :: int64
  assumes "- (2 ^ 53) \<le> sint n" and "sint n < 2 ^ 53"
  shows "sint (n * 1024) = sint n * 1024"
proof -
  have "sint (n * 1024) = signed_take_bit 63 (sint n * 1024)"
    by (simp add: sint_word_ariths)
  also have "\<dots> = sint n * 1024"
    using assms by (intro signed_take_bit_int_eq_self) simp_all
  finally show ?thesis .
qed

lemma times_1024_exact_iff:
  fixes n :: int64
  shows "sint (n * 1024) = sint n * 1024 \<longleftrightarrow> - (2 ^ 53) \<le> sint n \<and> sint n < 2 ^ 53"
proof
  assume eq: "sint (n * 1024) = sint n * 1024"
  have "- (2 ^ 63) \<le> sint (n * 1024)" and "sint (n * 1024) < 2 ^ 63"
    using sint_ge [of "n * 1024"] sint_lt [of "n * 1024"] by simp_all
  with eq show "- (2 ^ 53) \<le> sint n \<and> sint n < 2 ^ 53"
    by simp
next
  assume "- (2 ^ 53) \<le> sint n \<and> sint n < 2 ^ 53"
  then show "sint (n * 1024) = sint n * 1024"
    using times_1024_exact [of n] by simp
qed

text \<open>The admin calls of the handlers that set a quota.\<close>

lemma UserQuotaResource_Create_calls:
  "snd (UserQuotaResource_Create client gd data resp) =
     (if HasError (Append (Diagnostics resp) gd) then []
      else [Call_SetUserQuota (rgwQuotaFromSchemaQuota_user data)])"
  by (simp add: UserQuotaResource_Create_def resp_defs Let_def split: option.splits)

lemma UserQuotaResource_Update_calls:
  "snd (UserQuotaResource_Update client gd data resp) =
     (if HasError (Append (Diagnostics resp) gd) then []
      else [Call_SetUserQuota (rgwQuotaFromSchemaQuota_user data)])"
  by (simp add: UserQuotaResource_Update_def resp_defs Let_def split: option.splits)

lemma UserQuotaResource_Delete_calls:
  "snd (UserQuotaResource_Delete client gd data resp) =
     (if HasError (Append (Diagnostics resp) gd) then []
      else [Call_SetUserQuota ((rgwQuotaFromSchemaQuota_user data)\<lparr>Enabled := Some False\<rparr>)])"
  by (simp add: UserQuotaResource_Delete_def resp_defs Let_def split: option.splits)

lemma QuotaResource_Create_calls:
  "snd (QuotaResource_Create client gd data resp) =
     (if HasError (Append (Diagnostics resp) gd) then []
      else [(if ValueString (gq_Type data) = ''user''
             then Call_SetUserQuota (rgwQuotaFromSchemaQuota data)
             else Call_SetBucketQuota (rgwQuotaFromSchemaQuota data))])"
  by (simp add: QuotaResource_Create_def resp_defs Let_def split: option.splits)

lemma QuotaResource_Update_calls:
  "snd (QuotaResource_Update client gd data resp) =
     (if HasError (Append (Diagnostics resp) gd) then []
      else [(if ValueString (gq_Type data) = ''user''
             then Call_SetUserQuota (rgwQuotaFromSchemaQuota data)
             else Call_SetBucketQuota (rgwQuotaFromSchemaQuota data))])"
  by (simp add: QuotaResource_Update_def resp_defs Let_def split: option.splits)

lemma QuotaResource_Delete_calls:
  "snd (QuotaResource_Delete client gd data resp) =
     (if HasError (Append (Diagnostics resp) gd) then []
      else [(if ValueString (gq_Type data) = ''user''
             then Call_SetUserQuota ((rgwQuotaFromSchemaQuota data)\<lparr>Enabled := Some False, MaxSize := Some (- 1),
                MaxSizeKb := None, MaxObjects := Some (- 1)\<rparr>)
             else Call_SetBucketQuota ((rgwQuotaFromSchemaQuota data)\<lparr>Enabled := Some False, MaxSize := Some (- 1),
                MaxSizeKb := None, MaxObjects := Some (- 1)\<rparr>))])"
  by (simp add: QuotaResource_Delete_def resp_defs Let_def split: option.splits)

lemma BucketQuotaResource_Create_calls:
  "snd (BucketQuotaResource_Create client gd data resp) =
     (if HasError (Append (Diagnostics resp) gd) then []
      else [Call_SetIndividualBucketQuota (rgwBucketQuotaFromSchemaQuota data)])"
  by (simp add: BucketQuotaResource_Create_def resp_defs Let_def split: option.splits)

lemma BucketQuotaResource_Update_calls:
  "snd (BucketQuotaResource_Update client gd data resp) =
     (if HasError (Append (Diagnostics resp) gd) then []
      else [Call_SetIndividualBucketQuota (rgwBucketQuotaFromSchemaQuota data)])"
  by (simp add: BucketQuotaResource_Update_def resp_defs Let_def split: option.splits)

lemma BucketQuotaResource_Delete_calls:
  "snd (BucketQuotaResource_Delete client gd data resp) =
     (if HasError (Append (Diagnostics resp) gd) then []
      else [Call_SetIndividualBucketQuota ((rgwBucketQuotaFromSchemaQuota data)\<lparr>Enabled := Some False, MaxSize := Some (- 1),
                MaxSizeKb := None, MaxObjects := Some (- 1)\<rparr>)])"
  by (simp add: BucketQuotaResource_Delete_def resp_defs Let_def split: option.splits)


text \<open>
  Read of a quota resource and the identifiers. The response starts from the prior
  state, the one the model was decoded from.
\<close>

lemma UserQuotaResource_Read_identifiers:
  assumes "\<not> HasError (Append (Diagnostics resp) gd)" and "State resp = Some data"
    and "State (fst (UserQuotaResource_Read client gd data resp)) = Some d'"
  shows "uq_UID d' = uq_UID data"
  using assms
  by (auto simp: UserQuotaResource_Read_def resp_defs Let_def
      split: prod.splits option.splits if_splits)

lemma QuotaResource_Read_identifiers:
  assumes "\<not> HasError (Append (Diagnostics resp) gd)" and "State resp = Some data"
    and "State (fst (QuotaResource_Read client gd data resp)) = Some d'"
  shows "gq_UID d' = gq_UID data \<and> gq_Type d' = gq_Type data"
  using assms
  by (auto simp: QuotaResource_Read_def resp_defs Let_def
      split: prod.splits option.splits if_splits)

lemma BucketQuotaResource_Read_identifiers:
  assumes "\<not> HasError (Append (Diagnostics resp) gd)" and "State resp = Some data"
    and "State (fst (BucketQuotaResource_Read client gd data resp)) = Some d'"
  shows "bq_UID d' = bq_UID data \<and> bq_Bucket d' = bq_Bucket data"
  using assms
  by (auto simp: BucketQuotaResource_Read_def resp_defs Let_def
      split: prod.splits option.splits if_splits)

section \<open>The quota request\<close>

text \<open>
  C5. For the generic quota and the bucket quota resource, the request built from the
  model treats \<open>max_size_kb\<close> null or with value 0 as "size quota off": the request then
  carries \<open>MaxSize = -1\<close> and no \<open>MaxSizeKb\<close>. Otherwise it carries \<open>MaxSizeKb\<close> with
  the value of \<open>max_size_kb\<close> and no \<open>MaxSize\<close>. \<open>MaxObjects\<close> is there exactly when
  \<open>max_objects\<close> is not null.
\<close>

theorem quota_request_size_fields:
  "MaxSize (rgwQuotaFromSchemaQuota dg) =
     (if IsNull (gq_MaxSizeKB dg) \<or> ValueInt64 (gq_MaxSizeKB dg) = 0 then Some (- 1) else None) \<and>
   MaxSizeKb (rgwQuotaFromSchemaQuota dg) =
     (if IsNull (gq_MaxSizeKB dg) \<or> ValueInt64 (gq_MaxSizeKB dg) = 0 then None
      else Some (ValueInt64 (gq_MaxSizeKB dg))) \<and>
   MaxObjects (rgwQuotaFromSchemaQuota dg) =
     (if IsNull (gq_MaxObjects dg) then None else Some (ValueInt64 (gq_MaxObjects dg))) \<and>
   MaxSize (rgwBucketQuotaFromSchemaQuota db) =
     (if IsNull (bq_MaxSizeKB db) \<or> ValueInt64 (bq_MaxSizeKB db) = 0 then Some (- 1) else None) \<and>
   MaxSizeKb (rgwBucketQuotaFromSchemaQuota db) =
     (if IsNull (bq_MaxSizeKB db) \<or> ValueInt64 (bq_MaxSizeKB db) = 0 then None
      else Some (ValueInt64 (bq_MaxSizeKB db))) \<and>
   MaxObjects (rgwBucketQuotaFromSchemaQuota db) =
     (if IsNull (bq_MaxObjects db) then None else Some (ValueInt64 (bq_MaxObjects db)))"
  by (simp add: rgwQuotaFromSchemaQuota_def rgwBucketQuotaFromSchemaQuota_def
      QuotaSpec_zero_def Let_def int_conversions)

theorem quota_request_size_fields_witness:
  "MaxSize (rgwQuotaFromSchemaQuota gq_alice) = None \<and>
   MaxSizeKb (rgwQuotaFromSchemaQuota gq_alice) = Some 4 \<and>
   MaxObjects (rgwQuotaFromSchemaQuota gq_alice) = Some (- 1) \<and>
   MaxSize (rgwBucketQuotaFromSchemaQuota bq_photos) = Some (- 1) \<and>
   MaxSizeKb (rgwBucketQuotaFromSchemaQuota bq_photos) = None \<and>
   MaxObjects (rgwBucketQuotaFromSchemaQuota bq_photos) = None"
  using quota_request_size_fields [of gq_alice bq_photos]
  by (simp add: gq_alice_def bq_photos_def)

section \<open>Read and the remote errors\<close>

text \<open>
  C1. In the Read handler of every resource (user quota, generic quota, bucket quota,
  bucket link), when the admin call fails with the resource's own not-found error
  (\<open>ErrNoSuchUser\<close> for the two user-keyed quota reads and the bucket link read,
  \<open>ErrNoSuchBucket\<close> for the bucket quota read), the resource is removed from the
  state and no diagnostic is added; for every other error one error diagnostic is added
  and the state stays as it was.
\<close>

theorem Read_remote_error:
  assumes "\<not> HasError (Append (Diagnostics ru) gd)"
    and "\<not> HasError (Append (Diagnostics rg) gd)"
    and "\<not> HasError (Append (Diagnostics rb) gd)"
    and "\<not> HasError (Append (Diagnostics rl) gd)"
  shows
   "(GetUserQuota client (QuotaSpec_zero\<lparr>UID := ValueString (uq_UID du)\<rparr>) = (q, Some e) \<longrightarrow>
       fst (UserQuotaResource_Read client gd du ru) =
         (if errors_Is e ErrNoSuchUser
          then ru\<lparr>State := None, Diagnostics := Append (Diagnostics ru) gd\<rparr>
          else ru\<lparr>Diagnostics := Append (Diagnostics ru) gd @
                      [ErrorDiagnostic ''could not get user quota'' (Error e)]\<rparr>)) \<and>
    ((if ValueString (gq_Type dg) = ''user''
      then GetUserQuota client (QuotaSpec_zero\<lparr>UID := ValueString (gq_UID dg)\<rparr>)
      else GetBucketQuota client (QuotaSpec_zero\<lparr>UID := ValueString (gq_UID dg)\<rparr>))
       = (q, Some e) \<longrightarrow>
       fst (QuotaResource_Read client gd dg rg) =
         (if errors_Is e ErrNoSuchUser
          then rg\<lparr>State := None, Diagnostics := Append (Diagnostics rg) gd\<rparr>
          else rg\<lparr>Diagnostics := Append (Diagnostics rg) gd @
                      [ErrorDiagnostic ''could not get user quota'' (Error e)]\<rparr>)) \<and>
    (GetBucketInfo client
        \<lparr>b_Bucket = ValueString (bq_Bucket db), b_BucketQuota = QuotaSpec_zero\<rparr> = (b, Some e) \<longrightarrow>
       fst (BucketQuotaResource_Read client gd db rb) =
         (if errors_Is e ErrNoSuchBucket
          then rb\<lparr>State := None, Diagnostics := Append (Diagnostics rb) gd\<rparr>
          else rb\<lparr>Diagnostics := Append (Diagnostics rb) gd @
                      [ErrorDiagnostic ''could not get bucket quota'' (Error e)]\<rparr>)) \<and>
    (ListUsersBuckets client (ValueString (bl_UID dl)) = (buckets, Some e) \<longrightarrow>
       fst (BucketLinkResource_Read client gd dl rl) =
         (if errors_Is e ErrNoSuchUser
          then rl\<lparr>State := None, Diagnostics := Append (Diagnostics rl) gd\<rparr>
          else rl\<lparr>Diagnostics := Append (Diagnostics rl) gd @
                      [ErrorDiagnostic ''could not get user's buckets'' (Error e)]\<rparr>))"
  apply (intro conjI)
  subgoal
    using UserQuotaResource_Read_error [OF assms(1), where client = client and data = du]
    by simp
  subgoal
    using QuotaResource_Read_error [OF assms(2), where client = client and data = dg]
    by simp
  subgoal
    using BucketQuotaResource_Read_error [OF assms(3), where client = client and data = db]
    by simp
  subgoal
    using BucketLinkResource_Read_error [OF assms(4), where client = client and data = dl]
    by simp
  done

theorem Read_remote_error_witness:
  "\<not> HasError (Append (Diagnostics (Response_of uq_alice)) []) \<and>
   GetBucketInfo (admin_failing ErrNoSuchUser)
     \<lparr>b_Bucket = ValueString (bq_Bucket bq_photos), b_BucketQuota = QuotaSpec_zero\<rparr>
     = (\<lparr>b_Bucket = [], b_BucketQuota = QuotaSpec_zero\<rparr>, Some ErrNoSuchUser) \<and>
   fst (UserQuotaResource_Read (admin_failing ErrNoSuchUser) [] uq_alice (Response_of uq_alice))
     = \<lparr>State = None, Diagnostics = []\<rparr> \<and>
   fst (QuotaResource_Read (admin_failing ErrNoSuchUser) [] gq_alice (Response_of gq_alice))
     = \<lparr>State = None, Diagnostics = []\<rparr> \<and>
   fst (BucketQuotaResource_Read (admin_failing ErrNoSuchUser) [] bq_photos (Response_of bq_photos))
     = \<lparr>State = Some bq_photos,
        Diagnostics = [ErrorDiagnostic ''could not get bucket quota'' ''NoSuchUser'']\<rparr> \<and>
   fst (BucketLinkResource_Read (admin_failing ErrNoSuchUser) [] bl_photos (Response_of bl_photos))
     = \<lparr>State = None, Diagnostics = []\<rparr>"
  using Read_remote_error [where ru = "Response_of uq_alice" and rg = "Response_of gq_alice"
      and rb = "Response_of bq_photos" and rl = "Response_of bl_photos" and gd = "[]"
      and client = "admin_failing ErrNoSuchUser" and e = ErrNoSuchUser and q = QuotaSpec_zero
      and b = "\<lparr>b_Bucket = [], b_BucketQuota = QuotaSpec_zero\<rparr>" and buckets = "[]"
      and du = uq_alice and dg = gq_alice and db = bq_photos and dl = bl_photos]
  by (simp add: admin_failing_def Response_of_def HasError_def)

section \<open>Bucket links\<close>

text \<open>
  C7. Delete of a bucket link makes exactly one admin call: an unlink of (bucket, uid)
  when \<open>unlink_to_uid\<close> is null, otherwise a link of the bucket to \<open>unlink_to_uid\<close>.
  When that call fails with \<open>ErrNoSuchBucket\<close> no diagnostic is added; any other
  error adds one error diagnostic.
\<close>

theorem BucketLink_Delete_one_call:
  assumes "\<not> HasError (Append (Diagnostics rl) gd)"
  shows
   "snd (BucketLinkResource_Delete client gd dl rl) =
      [if IsNull (bl_UnlinkToUID dl)
       then Call_UnlinkBucket \<lparr>li_Bucket = ValueString (bl_Bucket dl),
                               li_UID = ValueString (bl_UID dl)\<rparr>
       else Call_LinkBucket \<lparr>li_Bucket = ValueString (bl_Bucket dl),
                             li_UID = ValueString (bl_UnlinkToUID dl)\<rparr>] \<and>
    fst (BucketLinkResource_Delete client gd dl rl) =
      (case (if IsNull (bl_UnlinkToUID dl)
             then UnlinkBucket client \<lparr>li_Bucket = ValueString (bl_Bucket dl),
                                        li_UID = ValueString (bl_UID dl)\<rparr>
             else LinkBucket client \<lparr>li_Bucket = ValueString (bl_Bucket dl),
                                      li_UID = ValueString (bl_UnlinkToUID dl)\<rparr>) of
         None \<Rightarrow> rl\<lparr>Diagnostics := Append (Diagnostics rl) gd\<rparr>
       | Some e \<Rightarrow>
           if errors_Is e ErrNoSuchBucket
           then rl\<lparr>Diagnostics := Append (Diagnostics rl) gd\<rparr>
           else rl\<lparr>Diagnostics := Append (Diagnostics rl) gd @
                       [ErrorDiagnostic ''could not delete bucket link'' (Error e)]\<rparr>)"
  using BucketLinkResource_Delete_calls [OF assms]
    BucketLinkResource_Delete_result [OF assms refl]
  by simp

theorem BucketLink_Delete_one_call_witness:
  "\<not> HasError (Append (Diagnostics (Response_of bl_photos)) []) \<and>
   BucketLinkResource_Delete (admin_failing ErrNoSuchBucket) [] bl_photos (Response_of bl_photos) =
     (Response_of bl_photos,
      [Call_UnlinkBucket \<lparr>li_Bucket = ''photos'', li_UID = ''alice''\<rparr>]) \<and>
   BucketLinkResource_Delete (admin_failing (ErrOther ''timeout'')) [] bl_attic (Response_of bl_attic) =
     (\<lparr>State = Some bl_attic,
       Diagnostics = [ErrorDiagnostic ''could not delete bucket link'' ''timeout'']\<rparr>,
      [Call_LinkBucket \<lparr>li_Bucket = ''attic'', li_UID = ''bob''\<rparr>])"
  using BucketLink_Delete_one_call [where rl = "Response_of bl_photos" and gd = "[]"
      and client = "admin_failing ErrNoSuchBucket" and dl = bl_photos]
    BucketLink_Delete_one_call [where rl = "Response_of bl_attic" and gd = "[]"
      and client = "admin_failing (ErrOther ''timeout'')" and dl = bl_attic]
  by (simp add: admin_failing_def Response_of_def HasError_def bl_photos_def bl_attic_def
      prod_eq_iff)

text \<open>
  C8. Read of a bucket link, when the listing of the user's buckets succeeds: if the
  stored bucket name is not in the list, the resource is removed from the state; if it
  is in the list, the model read from the prior state is saved again as it is. No
  diagnostic is added either way.
\<close>

theorem BucketLink_Read_membership:
  assumes "\<not> HasError (Append (Diagnostics rl) gd)"
    and "ListUsersBuckets client (ValueString (bl_UID dl)) = (buckets, None)"
  shows "fst (BucketLinkResource_Read client gd dl rl) =
           (if ValueString (bl_Bucket dl) \<in> set buckets
            then rl\<lparr>State := Some dl, Diagnostics := Append (Diagnostics rl) gd\<rparr>
            else rl\<lparr>State := None, Diagnostics := Append (Diagnostics rl) gd\<rparr>)"
  using BucketLinkResource_Read_ok [OF assms] by simp

theorem BucketLink_Read_membership_witness:
  "\<not> HasError (Append (Diagnostics (Response_of bl_photos)) []) \<and>
   ListUsersBuckets admin_ok (ValueString (bl_UID bl_photos)) = ([''logs'', ''photos''], None) \<and>
   fst (BucketLinkResource_Read admin_ok [] bl_photos (Response_of bl_photos)) =
     \<lparr>State = Some bl_photos, Diagnostics = []\<rparr> \<and>
   fst (BucketLinkResource_Read admin_ok [] bl_attic (Response_of bl_attic)) =
     \<lparr>State = None, Diagnostics = []\<rparr>"
  using BucketLink_Read_membership [where rl = "Response_of bl_photos" and gd = "[]"
      and client = admin_ok and dl = bl_photos and buckets = "[''logs'', ''photos'']"]
    BucketLink_Read_membership [where rl = "Response_of bl_attic" and gd = "[]"
      and client = admin_ok and dl = bl_attic and buckets = "[''logs'', ''photos'']"]
  by (simp add: admin_ok_def Response_of_def HasError_def bl_photos_def bl_attic_def)

section \<open>Delete of a quota resource\<close>

text \<open>
  C2. Delete of every quota resource (user quota, generic quota, bucket quota) issues
  no removal call of its own: when the prior state decodes without error it makes one
  call, to the setter that Create and Update of the same resource use
  (\<open>SetUserQuota\<close>, \<open>SetBucketQuota\<close> by type, or \<open>SetIndividualBucketQuota\<close>), with
  \<open>Enabled\<close> set to false; otherwise it makes no call at all. Deleting the resource
  turns the remote quota off.
\<close>

theorem quota_Delete_calls_setter:
  "snd (UserQuotaResource_Delete client gd du ru) =
     (if HasError (Append (Diagnostics ru) gd) then []
      else [Call_SetUserQuota ((rgwQuotaFromSchemaQuota_user du)\<lparr>Enabled := Some False\<rparr>)]) \<and>
   snd (UserQuotaResource_Create client gd du ru) =
     (if HasError (Append (Diagnostics ru) gd) then []
      else [Call_SetUserQuota (rgwQuotaFromSchemaQuota_user du)]) \<and>
   snd (UserQuotaResource_Update client gd du ru) =
     (if HasError (Append (Diagnostics ru) gd) then []
      else [Call_SetUserQuota (rgwQuotaFromSchemaQuota_user du)]) \<and>
   snd (QuotaResource_Delete client gd dg rg) =
     (if HasError (Append (Diagnostics rg) gd) then []
      else [if ValueString (gq_Type dg) = ''user''
            then Call_SetUserQuota
                   ((rgwQuotaFromSchemaQuota dg)\<lparr>Enabled := Some False, MaxSize := Some (- 1),
                      MaxSizeKb := None, MaxObjects := Some (- 1)\<rparr>)
            else Call_SetBucketQuota
                   ((rgwQuotaFromSchemaQuota dg)\<lparr>Enabled := Some False, MaxSize := Some (- 1),
                      MaxSizeKb := None, MaxObjects := Some (- 1)\<rparr>)]) \<and>
   snd (QuotaResource_Create client gd dg rg) =
     (if HasError (Append (Diagnostics rg) gd) then []
      else [if ValueString (gq_Type dg) = ''user''
            then Call_SetUserQuota (rgwQuotaFromSchemaQuota dg)
            else Call_SetBucketQuota (rgwQuotaFromSchemaQuota dg)]) \<and>
   snd (QuotaResource_Update client gd dg rg) =
     (if HasError (Append (Diagnostics rg) gd) then []
      else [if ValueString (gq_Type dg) = ''user''
            then Call_SetUserQuota (rgwQuotaFromSchemaQuota dg)
            else Call_SetBucketQuota (rgwQuotaFromSchemaQuota dg)]) \<and>
   snd (BucketQuotaResource_Delete client gd db rb) =
     (if HasError (Append (Diagnostics rb) gd) then []
      else [Call_SetIndividualBucketQuota
              ((rgwBucketQuotaFromSchemaQuota db)\<lparr>Enabled := Some False, MaxSize := Some (- 1),
                 MaxSizeKb := None, MaxObjects := Some (- 1)\<rparr>)]) \<and>
   snd (BucketQuotaResource_Create client gd db rb) =
     (if HasError (Append (Diagnostics rb) gd) then []
      else [Call_SetIndividualBucketQuota (rgwBucketQuotaFromSchemaQuota db)]) \<and>
   snd (BucketQuotaResource_Update client gd db rb) =
     (if HasError (Append (Diagnostics rb) gd) then []
      else [Call_SetIndividualBucketQuota (rgwBucketQuotaFromSchemaQuota db)])"
  by (simp only: UserQuotaResource_Create_calls UserQuotaResource_Update_calls
      UserQuotaResource_Delete_calls QuotaResource_Create_calls QuotaResource_Update_calls
      QuotaResource_Delete_calls BucketQuotaResource_Create_calls
      BucketQuotaResource_Update_calls BucketQuotaResource_Delete_calls simp_thms)

theorem quota_Delete_calls_setter_witness:
  "snd (UserQuotaResource_Delete admin_ok [] uq_alice (Response_of uq_alice)) =
     [Call_SetUserQuota \<lparr>UID = ''alice'', Bucket = [], QuotaType = ''user'', Enabled = Some False,
        CheckOnRaw = False, MaxSize = None, MaxSizeKb = Some 4, MaxObjects = None\<rparr>] \<and>
   snd (UserQuotaResource_Create admin_ok [] uq_alice Response_empty) =
     [Call_SetUserQuota \<lparr>UID = ''alice'', Bucket = [], QuotaType = ''user'', Enabled = Some True,
        CheckOnRaw = False, MaxSize = None, MaxSizeKb = Some 4, MaxObjects = None\<rparr>] \<and>
   snd (QuotaResource_Delete admin_ok [] gq_alice (Response_of gq_alice)) =
     [Call_SetUserQuota \<lparr>UID = ''alice'', Bucket = [], QuotaType = ''user'', Enabled = Some False,
        CheckOnRaw = False, MaxSize = Some (- 1), MaxSizeKb = None, MaxObjects = Some (- 1)\<rparr>] \<and>
   snd (BucketQuotaResource_Delete admin_ok [] bq_photos (Response_of bq_photos)) =
     [Call_SetIndividualBucketQuota \<lparr>UID = ''alice'', Bucket = ''photos'', QuotaType = [],
        Enabled = Some False, CheckOnRaw = False, MaxSize = Some (- 1), MaxSizeKb = None,
        MaxObjects = Some (- 1)\<rparr>] \<and>
   snd (BucketQuotaResource_Update admin_ok [] bq_photos (Response_of bq_photos)) =
     [Call_SetIndividualBucketQuota \<lparr>UID = ''alice'', Bucket = ''photos'', QuotaType = [],
        Enabled = Some True, CheckOnRaw = False, MaxSize = Some (- 1), MaxSizeKb = None,
        MaxObjects = None\<rparr>]"
  using quota_Delete_calls_setter [where client = admin_ok and gd = "[]" and du = uq_alice
      and ru = "Response_of uq_alice" and dg = gq_alice and rg = "Response_of gq_alice"
      and db = bq_photos and rb = "Response_of bq_photos"]
    quota_Delete_calls_setter [where client = admin_ok and gd = "[]" and du = uq_alice
      and ru = Response_empty and dg = gq_alice and rg = Response_empty
      and db = bq_photos and rb = Response_empty]
  by (simp add: example_defs HasError_def rgwQuotaFromSchemaQuota_user_def
      rgwQuotaFromSchemaQuota_def rgwBucketQuotaFromSchemaQuota_def Let_def int_conversions)

text \<open>
  C9. In the Delete handler of every quota resource the second error check, the one
  that lets the not-found error pass and would report "could not delete ...", is never
  taken: the check before it returns on every error. So every error of the setter, the
  not-found error too, gives the diagnostic "could not modify ...", and no result of the
  handler carries a "could not delete ..." diagnostic.
\<close>

theorem quota_Delete_second_check_dead:
  assumes "\<not> HasError (Append (Diagnostics ru) gd)"
    and "\<not> HasError (Append (Diagnostics rg) gd)"
    and "\<not> HasError (Append (Diagnostics rb) gd)"
  shows
   "(SetUserQuota client ((rgwQuotaFromSchemaQuota_user du)\<lparr>Enabled := Some False\<rparr>) = Some e \<longrightarrow>
       Diagnostics (fst (UserQuotaResource_Delete client gd du ru)) =
         Append (Diagnostics ru) gd @
           [ErrorDiagnostic ''could not modify user quota'' (Error e)]) \<and>
    ErrorDiagnostic ''could not delete user quota'' d
       \<notin> set (Diagnostics (fst (UserQuotaResource_Delete client gd du ru))) \<and>
    ((if ValueString (gq_Type dg) = ''user''
      then SetUserQuota client
             ((rgwQuotaFromSchemaQuota dg)\<lparr>Enabled := Some False, MaxSize := Some (- 1),
                MaxSizeKb := None, MaxObjects := Some (- 1)\<rparr>)
      else SetBucketQuota client
             ((rgwQuotaFromSchemaQuota dg)\<lparr>Enabled := Some False, MaxSize := Some (- 1),
                MaxSizeKb := None, MaxObjects := Some (- 1)\<rparr>)) = Some e \<longrightarrow>
       Diagnostics (fst (QuotaResource_Delete client gd dg rg)) =
         Append (Diagnostics rg) gd @
           [ErrorDiagnostic ''could not modify user quota'' (Error e)]) \<and>
    ErrorDiagnostic ''could not delete user quota'' d
       \<notin> set (Diagnostics (fst (QuotaResource_Delete client gd dg rg))) \<and>
    (SetIndividualBucketQuota client
        ((rgwBucketQuotaFromSchemaQuota db)\<lparr>Enabled := Some False, MaxSize := Some (- 1),
           MaxSizeKb := None, MaxObjects := Some (- 1)\<rparr>) = Some e \<longrightarrow>
       Diagnostics (fst (BucketQuotaResource_Delete client gd db rb)) =
         Append (Diagnostics rb) gd @
           [ErrorDiagnostic ''could not modify bucket quota'' (Error e)]) \<and>
    ErrorDiagnostic ''could not delete bucket quota'' d
       \<notin> set (Diagnostics (fst (BucketQuotaResource_Delete client gd db rb)))"
proof -
  have u: "ErrorDiagnostic ''could not delete user quota'' d
             \<notin> set (Diagnostics (fst (UserQuotaResource_Delete client gd du ru)))"
  proof (cases "SetUserQuota client ((rgwQuotaFromSchemaQuota_user du)\<lparr>Enabled := Some False\<rparr>)")
    case None
    then show ?thesis
      using UserQuotaResource_Delete_ok [OF assms(1)] no_error_in_clean [OF assms(1)] by simp
  next
    case (Some x)
    then show ?thesis
      using UserQuotaResource_Delete_error [OF assms(1)] no_error_in_clean [OF assms(1)] by simp
  qed
  have g: "ErrorDiagnostic ''could not delete user quota'' d
             \<notin> set (Diagnostics (fst (QuotaResource_Delete client gd dg rg)))"
  proof (cases "if ValueString (gq_Type dg) = ''user''
      then SetUserQuota client
             ((rgwQuotaFromSchemaQuota dg)\<lparr>Enabled := Some False, MaxSize := Some (- 1),
                MaxSizeKb := None, MaxObjects := Some (- 1)\<rparr>)
      else SetBucketQuota client
             ((rgwQuotaFromSchemaQuota dg)\<lparr>Enabled := Some False, MaxSize := Some (- 1),
                MaxSizeKb := None, MaxObjects := Some (- 1)\<rparr>)")
    case None
    then show ?thesis
      using QuotaResource_Delete_ok [OF assms(2)] no_error_in_clean [OF assms(2)] by simp
  next
    case (Some x)
    then show ?thesis
      using QuotaResource_Delete_error [OF assms(2)] no_error_in_clean [OF assms(2)] by simp
  qed
  have b: "ErrorDiagnostic ''could not delete bucket quota'' d
             \<notin> set (Diagnostics (fst (BucketQuotaResource_Delete client gd db rb)))"
  proof (cases "SetIndividualBucketQuota client
        ((rgwBucketQuotaFromSchemaQuota db)\<lparr>Enabled := Some False, MaxSize := Some (- 1),
           MaxSizeKb := None, MaxObjects := Some (- 1)\<rparr>)")
    case None
    then show ?thesis
      using BucketQuotaResource_Delete_ok [OF assms(3)] no_error_in_clean [OF assms(3)] by simp
  next
    case (Some x)
    then show ?thesis
      using BucketQuotaResource_Delete_error [OF assms(3)] no_error_in_clean [OF assms(3)]
      by simp
  qed
  show ?thesis
    using u g b UserQuotaResource_Delete_error [OF assms(1), where client = client and data = du and e = e]
      QuotaResource_Delete_error [OF assms(2), where client = client and data = dg and e = e]
      BucketQuotaResource_Delete_error [OF assms(3), where client = client and data = db and e = e]
    by simp
qed

theorem quota_Delete_second_check_dead_witness:
  "\<not> HasError (Append (Diagnostics (Response_of uq_alice)) []) \<and>
   errors_Is ErrNoSuchUser ErrNoSuchUser \<and>
   SetUserQuota (admin_failing ErrNoSuchUser)
     ((rgwQuotaFromSchemaQuota_user uq_alice)\<lparr>Enabled := Some False\<rparr>) = Some ErrNoSuchUser \<and>
   Diagnostics (fst (UserQuotaResource_Delete (admin_failing ErrNoSuchUser) [] uq_alice
                      (Response_of uq_alice))) =
     [ErrorDiagnostic ''could not modify user quota'' ''NoSuchUser''] \<and>
   Diagnostics (fst (QuotaResource_Delete (admin_failing ErrNoSuchUser) [] gq_alice
                      (Response_of gq_alice))) =
     [ErrorDiagnostic ''could not modify user quota'' ''NoSuchUser''] \<and>
   Diagnostics (fst (BucketQuotaResource_Delete (admin_failing ErrNoSuchUser) [] bq_photos
                      (Response_of bq_photos))) =
     [ErrorDiagnostic ''could not modify bucket quota'' ''NoSuchUser'']"
  using quota_Delete_second_check_dead [where client = "admin_failing ErrNoSuchUser"
      and gd = "[]" and e = ErrNoSuchUser
      and du = uq_alice and ru = "Response_of uq_alice"
      and dg = gq_alice and rg = "Response_of gq_alice"
      and db = bq_photos and rb = "Response_of bq_photos"]
  by (simp add: admin_failing_def Response_of_def HasError_def)

section \<open>Create and Update of a quota resource\<close>

text \<open>
  C4. In Create and Update of every quota resource, when the setter call returns an
  error (any error), the handler adds one error diagnostic and leaves the state of the
  response as it was; when the call succeeds, the state is written and no diagnostic is
  added. So the state is written only after a successful remote call.
\<close>

theorem quota_Create_Update_error_keeps_state:
  assumes "\<not> HasError (Append (Diagnostics ru) gd)"
    and "\<not> HasError (Append (Diagnostics rg) gd)"
    and "\<not> HasError (Append (Diagnostics rb) gd)"
  shows
   "(SetUserQuota client (rgwQuotaFromSchemaQuota_user du) = Some e \<longrightarrow>
       State (fst (UserQuotaResource_Create client gd du ru)) = State ru \<and>
       Diagnostics (fst (UserQuotaResource_Create client gd du ru)) =
         Append (Diagnostics ru) gd @ [ErrorDiagnostic ''could not create user quota'' (Error e)] \<and>
       State (fst (UserQuotaResource_Update client gd du ru)) = State ru \<and>
       Diagnostics (fst (UserQuotaResource_Update client gd du ru)) =
         Append (Diagnostics ru) gd @ [ErrorDiagnostic ''could not modify user quota'' (Error e)]) \<and>
    (SetUserQuota client (rgwQuotaFromSchemaQuota_user du) = None \<longrightarrow>
       fst (UserQuotaResource_Create client gd du ru) =
         ru\<lparr>State := Some du, Diagnostics := Append (Diagnostics ru) gd\<rparr> \<and>
       fst (UserQuotaResource_Update client gd du ru) =
         ru\<lparr>State := Some du, Diagnostics := Append (Diagnostics ru) gd\<rparr>) \<and>
    ((if ValueString (gq_Type dg) = ''user''
      then SetUserQuota client (rgwQuotaFromSchemaQuota dg)
      else SetBucketQuota client (rgwQuotaFromSchemaQuota dg)) = Some e \<longrightarrow>
       State (fst (QuotaResource_Create client gd dg rg)) = State rg \<and>
       Diagnostics (fst (QuotaResource_Create client gd dg rg)) =
         Append (Diagnostics rg) gd @ [ErrorDiagnostic ''could not create user quota'' (Error e)] \<and>
       State (fst (QuotaResource_Update client gd dg rg)) = State rg \<and>
       Diagnostics (fst (QuotaResource_Update client gd dg rg)) =
         Append (Diagnostics rg) gd @ [ErrorDiagnostic ''could not modify user quota'' (Error e)]) \<and>
    ((if ValueString (gq_Type dg) = ''user''
      then SetUserQuota client (rgwQuotaFromSchemaQuota dg)
      else SetBucketQuota client (rgwQuotaFromSchemaQuota dg)) = None \<longrightarrow>
       fst (QuotaResource_Create client gd dg rg) =
         rg\<lparr>State := Some (dg\<lparr>gq_MaxSize :=
                               Known (if ValueInt64 (gq_MaxSizeKB dg) \<noteq> 0
                                      then ValueInt64 (gq_MaxSizeKB dg) * 1024 else - 1)\<rparr>),
            Diagnostics := Append (Diagnostics rg) gd\<rparr> \<and>
       fst (QuotaResource_Update client gd dg rg) =
         rg\<lparr>State := Some (dg\<lparr>gq_MaxSize :=
                               Known (if ValueInt64 (gq_MaxSizeKB dg) \<noteq> 0
                                      then ValueInt64 (gq_MaxSizeKB dg) * 1024 else - 1)\<rparr>),
            Diagnostics := Append (Diagnostics rg) gd\<rparr>) \<and>
    (SetIndividualBucketQuota client (rgwBucketQuotaFromSchemaQuota db) = Some e \<longrightarrow>
       State (fst (BucketQuotaResource_Create client gd db rb)) = State rb \<and>
       Diagnostics (fst (BucketQuotaResource_Create client gd db rb)) =
         Append (Diagnostics rb) gd @ [ErrorDiagnostic ''could not create bucket quota'' (Error e)] \<and>
       State (fst (BucketQuotaResource_Update client gd db rb)) = State rb \<and>
       Diagnostics (fst (BucketQuotaResource_Update client gd db rb)) =
         Append (Diagnostics rb) gd @ [ErrorDiagnostic ''could not modify bucket quota'' (Error e)]) \<and>
    (SetIndividualBucketQuota client (rgwBucketQuotaFromSchemaQuota db) = None \<longrightarrow>
       fst (BucketQuotaResource_Create client gd db rb) =
         rb\<lparr>State := Some (db\<lparr>bq_MaxSize :=
                               Known (if ValueInt64 (bq_MaxSizeKB db) \<noteq> 0
                                      then ValueInt64 (bq_MaxSizeKB db) * 1024 else - 1)\<rparr>),
            Diagnostics := Append (Diagnostics rb) gd\<rparr> \<and>
       fst (BucketQuotaResource_Update client gd db rb) =
         rb\<lparr>State := Some (db\<lparr>bq_MaxSize :=
                               Known (if ValueInt64 (bq_MaxSizeKB db) \<noteq> 0
                                      then ValueInt64 (bq_MaxSizeKB db) * 1024 else - 1)\<rparr>),
            Diagnostics := Append (Diagnostics rb) gd\<rparr>)"
proof -
  note u = assms(1) and g = assms(2) and b = assms(3)
  show ?thesis
    using UserQuotaResource_Create_error [OF u, where client = client and data = du and e = e]
      UserQuotaResource_Update_error [OF u, where client = client and data = du and e = e]
      UserQuotaResource_Create_ok [OF u, where client = client and data = du]
      UserQuotaResource_Update_ok [OF u, where client = client and data = du]
      QuotaResource_Create_error [OF g, where client = client and data = dg and e = e]
      QuotaResource_Update_error [OF g, where client = client and data = dg and e = e]
      QuotaResource_Create_ok [OF g, where client = client and data = dg]
      QuotaResource_Update_ok [OF g, where client = client and data = dg]
      BucketQuotaResource_Create_error [OF b, where client = client and data = db and e = e]
      BucketQuotaResource_Update_error [OF b, where client = client and data = db and e = e]
      BucketQuotaResource_Create_ok [OF b, where client = client and data = db]
      BucketQuotaResource_Update_ok [OF b, where client = client and data = db]
    by simp
qed

theorem quota_Create_Update_error_keeps_state_witness:
  "\<not> HasError (Append (Diagnostics (Response_of uq_alice)) []) \<and>
   SetUserQuota (admin_failing (ErrOther ''503'')) (rgwQuotaFromSchemaQuota_user uq_alice)
     = Some (ErrOther ''503'') \<and>
   fst (UserQuotaResource_Create (admin_failing (ErrOther ''503'')) [] uq_alice Response_empty) =
     \<lparr>State = None, Diagnostics = [ErrorDiagnostic ''could not create user quota'' ''503'']\<rparr> \<and>
   fst (QuotaResource_Update (admin_failing (ErrOther ''503'')) [] gq_alice (Response_of gq_alice)) =
     \<lparr>State = Some gq_alice,
       Diagnostics = [ErrorDiagnostic ''could not modify user quota'' ''503'']\<rparr> \<and>
   fst (BucketQuotaResource_Update (admin_failing (ErrOther ''503'')) [] bq_photos
          (Response_of bq_photos)) =
     \<lparr>State = Some bq_photos,
       Diagnostics = [ErrorDiagnostic ''could not modify bucket quota'' ''503'']\<rparr> \<and>
   fst (UserQuotaResource_Update admin_ok [] uq_alice
          (Response_of (uq_alice\<lparr>uq_Enabled := Known False\<rparr>))) =
     \<lparr>State = Some uq_alice, Diagnostics = []\<rparr>"
  using quota_Create_Update_error_keeps_state [where client = "admin_failing (ErrOther ''503'')"
      and gd = "[]" and e = "ErrOther ''503''" and du = uq_alice and ru = Response_empty
      and dg = gq_alice and rg = "Response_of gq_alice"
      and db = bq_photos and rb = "Response_of bq_photos"]
    quota_Create_Update_error_keeps_state [where client = admin_ok
      and gd = "[]" and du = uq_alice and ru = "Response_of (uq_alice\<lparr>uq_Enabled := Known False\<rparr>)"
      and dg = gq_alice and rg = "Response_of gq_alice"
      and db = bq_photos and rb = "Response_of bq_photos"]
  by (simp add: admin_failing_def admin_ok_def Response_of_def Response_empty_def HasError_def)

text \<open>
  C6, as the handlers compute it. After a successful Create or Update of the generic
  quota or the bucket quota resource, the \<open>max_size\<close> written to the state is -1 when
  \<open>max_size_kb\<close> is null or 0, and otherwise the product of \<open>max_size_kb\<close> and 1024 in
  Go's \<open>int64\<close> arithmetic, which wraps around modulo \<open>2 ^ 64\<close>. Read as signed
  integers, the written value is \<open>max_size_kb\<close> multiplied by 1024 exactly when
  \<open>max_size_kb\<close> lies between \<open>- 2 ^ 53\<close> (included) and \<open>2 ^ 53\<close> (excluded). Nothing
  else of the planned model is changed.
\<close>

theorem quota_Create_Update_max_size_int64:
  assumes "\<not> HasError (Append (Diagnostics rg) gd)"
    and "\<not> HasError (Append (Diagnostics rb) gd)"
  shows
   "((if ValueString (gq_Type dg) = ''user''
      then SetUserQuota client (rgwQuotaFromSchemaQuota dg)
      else SetBucketQuota client (rgwQuotaFromSchemaQuota dg)) = None \<longrightarrow>
       State (fst (QuotaResource_Create client gd dg rg)) =
         Some (dg\<lparr>gq_MaxSize :=
                 Known (if IsNull (gq_MaxSizeKB dg) \<or> ValueInt64 (gq_MaxSizeKB dg) = 0 then - 1
                        else ValueInt64 (gq_MaxSizeKB dg) * 1024)\<rparr>) \<and>
       State (fst (QuotaResource_Update client gd dg rg)) =
         Some (dg\<lparr>gq_MaxSize :=
                 Known (if IsNull (gq_MaxSizeKB dg) \<or> ValueInt64 (gq_MaxSizeKB dg) = 0 then - 1
                        else ValueInt64 (gq_MaxSizeKB dg) * 1024)\<rparr>)) \<and>
    (SetIndividualBucketQuota client (rgwBucketQuotaFromSchemaQuota db) = None \<longrightarrow>
       State (fst (BucketQuotaResource_Create client gd db rb)) =
         Some (db\<lparr>bq_MaxSize :=
                 Known (if IsNull (bq_MaxSizeKB db) \<or> ValueInt64 (bq_MaxSizeKB db) = 0 then - 1
                        else ValueInt64 (bq_MaxSizeKB db) * 1024)\<rparr>) \<and>
       State (fst (BucketQuotaResource_Update client gd db rb)) =
         Some (db\<lparr>bq_MaxSize :=
                 Known (if IsNull (bq_MaxSizeKB db) \<or> ValueInt64 (bq_MaxSizeKB db) = 0 then - 1
                        else ValueInt64 (bq_MaxSizeKB db) * 1024)\<rparr>)) \<and>
    (sint (ValueInt64 (gq_MaxSizeKB dg) * 1024) = sint (ValueInt64 (gq_MaxSizeKB dg)) * 1024
       \<longleftrightarrow> - (2 ^ 53) \<le> sint (ValueInt64 (gq_MaxSizeKB dg)) \<and>
           sint (ValueInt64 (gq_MaxSizeKB dg)) < 2 ^ 53) \<and>
    (sint (ValueInt64 (bq_MaxSizeKB db) * 1024) = sint (ValueInt64 (bq_MaxSizeKB db)) * 1024
       \<longleftrightarrow> - (2 ^ 53) \<le> sint (ValueInt64 (bq_MaxSizeKB db)) \<and>
           sint (ValueInt64 (bq_MaxSizeKB db)) < 2 ^ 53)"
proof -
  have kg: "(IsNull (gq_MaxSizeKB dg) \<or> ValueInt64 (gq_MaxSizeKB dg) = 0)
              = (ValueInt64 (gq_MaxSizeKB dg) = 0)"
    using IsNull_ValueInt64 by blast
  have kb: "(IsNull (bq_MaxSizeKB db) \<or> ValueInt64 (bq_MaxSizeKB db) = 0)
              = (ValueInt64 (bq_MaxSizeKB db) = 0)"
    using IsNull_ValueInt64 by blast
  have states:
    "((if ValueString (gq_Type dg) = ''user''
       then SetUserQuota client (rgwQuotaFromSchemaQuota dg)
       else SetBucketQuota client (rgwQuotaFromSchemaQuota dg)) = None \<longrightarrow>
        State (fst (QuotaResource_Create client gd dg rg)) =
          Some (dg\<lparr>gq_MaxSize :=
                  Known (if ValueInt64 (gq_MaxSizeKB dg) = 0 then - 1
                         else ValueInt64 (gq_MaxSizeKB dg) * 1024)\<rparr>) \<and>
        State (fst (QuotaResource_Update client gd dg rg)) =
          Some (dg\<lparr>gq_MaxSize :=
                  Known (if ValueInt64 (gq_MaxSizeKB dg) = 0 then - 1
                         else ValueInt64 (gq_MaxSizeKB dg) * 1024)\<rparr>)) \<and>
     (SetIndividualBucketQuota client (rgwBucketQuotaFromSchemaQuota db) = None \<longrightarrow>
        State (fst (BucketQuotaResource_Create client gd db rb)) =
          Some (db\<lparr>bq_MaxSize :=
                  Known (if ValueInt64 (bq_MaxSizeKB db) = 0 then - 1
                         else ValueInt64 (bq_MaxSizeKB db) * 1024)\<rparr>) \<and>
        State (fst (BucketQuotaResource_Update client gd db rb)) =
          Some (db\<lparr>bq_MaxSize :=
                  Known (if ValueInt64 (bq_MaxSizeKB db) = 0 then - 1
                         else ValueInt64 (bq_MaxSizeKB db) * 1024)\<rparr>))"
    using QuotaResource_Create_ok [OF assms(1), where client = client and data = dg]
      QuotaResource_Update_ok [OF assms(1), where client = client and data = dg]
      BucketQuotaResource_Create_ok [OF assms(2), where client = client and data = db]
      BucketQuotaResource_Update_ok [OF assms(2), where client = client and data = db]
    by simp
  show ?thesis
    unfolding kg kb
    using states times_1024_exact_iff [of "ValueInt64 (gq_MaxSizeKB dg)"]
      times_1024_exact_iff [of "ValueInt64 (bq_MaxSizeKB db)"]
    by blast
qed

theorem quota_Create_Update_max_size_int64_witness:
  "\<not> HasError (Append (Diagnostics (Response_empty :: QuotaResourceModel Response)) []) \<and>
   SetUserQuota admin_ok (rgwQuotaFromSchemaQuota gq_alice) = None \<and>
   State (fst (QuotaResource_Create admin_ok [] gq_alice Response_empty)) =
     Some (gq_alice\<lparr>gq_MaxSize := Known 4096\<rparr>) \<and>
   State (fst (QuotaResource_Update admin_ok [] gq_alice Response_empty)) =
     Some (gq_alice\<lparr>gq_MaxSize := Known 4096\<rparr>) \<and>
   State (fst (BucketQuotaResource_Create admin_ok [] bq_photos Response_empty)) =
     Some (bq_photos\<lparr>bq_MaxSize := Known (- 1)\<rparr>) \<and>
   State (fst (BucketQuotaResource_Update admin_ok [] (bq_photos\<lparr>bq_MaxSizeKB := Null\<rparr>)
                 Response_empty)) =
     Some (bq_photos\<lparr>bq_MaxSizeKB := Null, bq_MaxSize := Known (- 1)\<rparr>) \<and>
   sint (ValueInt64 (gq_MaxSizeKB gq_alice) * 1024) = 4096"
proof -
  have ok: "\<not> HasError (Append (Diagnostics (Response_empty :: 'm Response)) [])"
    by (simp add: Response_empty_def HasError_def)
  note alice = quota_Create_Update_max_size_int64 [OF ok ok, where client = admin_ok
      and dg = gq_alice and db = bq_photos]
  note null = quota_Create_Update_max_size_int64 [OF ok ok, where client = admin_ok
      and dg = gq_alice and db = "bq_photos\<lparr>bq_MaxSizeKB := Null\<rparr>"]
  have set: "SetUserQuota admin_ok (rgwQuotaFromSchemaQuota gq_alice) = None"
    by (simp add: admin_ok_def)
  have "State (fst (QuotaResource_Create admin_ok [] gq_alice Response_empty)) =
          Some (gq_alice\<lparr>gq_MaxSize := Known 4096\<rparr>)"
    and "State (fst (QuotaResource_Update admin_ok [] gq_alice Response_empty)) =
          Some (gq_alice\<lparr>gq_MaxSize := Known 4096\<rparr>)"
    using alice [THEN conjunct1] by (simp_all add: admin_ok_def gq_alice_def)
  moreover have "State (fst (BucketQuotaResource_Create admin_ok [] bq_photos Response_empty)) =
          Some (bq_photos\<lparr>bq_MaxSize := Known (- 1)\<rparr>)"
    using alice [THEN conjunct2, THEN conjunct1] by (simp add: admin_ok_def bq_photos_def)
  moreover have "State (fst (BucketQuotaResource_Update admin_ok []
                   (bq_photos\<lparr>bq_MaxSizeKB := Null\<rparr>) Response_empty)) =
          Some (bq_photos\<lparr>bq_MaxSizeKB := Null, bq_MaxSize := Known (- 1)\<rparr>)"
    using null [THEN conjunct2, THEN conjunct1] by (simp add: admin_ok_def bq_photos_def)
  moreover have "sint (ValueInt64 (gq_MaxSizeKB gq_alice) * 1024) = 4096"
    using alice [THEN conjunct2, THEN conjunct2, THEN conjunct1] by (simp add: gq_alice_def)
  ultimately show ?thesis
    using ok set by simp
qed

text \<open>
  Read over the integers, "\<open>max_size\<close> equals \<open>max_size_kb\<close> multiplied by 1024" fails
  where the product leaves the \<open>int64\<close> range: for \<open>max_size_kb = 2 ^ 54\<close>, a value the
  schema accepts, Create of the bucket quota writes \<open>max_size = 0\<close>.
\<close>

theorem max_size_wraps_at_2_54:
  "SetIndividualBucketQuota admin_ok
     (rgwBucketQuotaFromSchemaQuota (bq_photos\<lparr>bq_MaxSizeKB := Known 18014398509481984\<rparr>))
     = None \<and>
   \<not> IsNull (Known 18014398509481984 :: int64 attr) \<and>
   sint (ValueInt64 (Known 18014398509481984)) = 18014398509481984 \<and>
   State (fst (BucketQuotaResource_Create admin_ok []
                 (bq_photos\<lparr>bq_MaxSizeKB := Known 18014398509481984\<rparr>) Response_empty)) =
     Some (bq_photos\<lparr>bq_MaxSizeKB := Known 18014398509481984, bq_MaxSize := Known 0\<rparr>) \<and>
   sint (0 :: int64) \<noteq> 18014398509481984 * 1024"
  by (simp add: BucketQuotaResource_Create_def admin_ok_def Response_empty_def resp_defs
      HasError_def Let_def bq_photos_def)

section \<open>Read of a quota resource\<close>

text \<open>
  C10. Read of a quota resource never changes the identifier fields of the state
  (\<open>uid\<close>, and \<open>type\<close> or \<open>bucket\<close> where the model has one). Read of the user quota
  stops with the diagnostic "api returned wrong user", writing no state, when the UID in
  the answer differs from the stored one. On success every Read overwrites \<open>enabled\<close>,
  \<open>max_size\<close>, \<open>max_size_kb\<close> and \<open>max_objects\<close> only where the answer's pointer is
  not nil, and keeps the prior value of a field the answer omits.
\<close>

theorem quota_Read_frame:
  assumes "\<not> HasError (Append (Diagnostics ru) gd)" and "State ru = Some du"
    and "\<not> HasError (Append (Diagnostics rg) gd)" and "State rg = Some dg"
    and "\<not> HasError (Append (Diagnostics rb) gd)" and "State rb = Some db"
  shows
   "(GetUserQuota client (QuotaSpec_zero\<lparr>UID := ValueString (uq_UID du)\<rparr>) = (q, None) \<and>
     ValueString (uq_UID du) \<noteq> UID q \<longrightarrow>
       fst (UserQuotaResource_Read client gd du ru) =
         ru\<lparr>Diagnostics := Append (Diagnostics ru) gd @
               [ErrorDiagnostic ''api returned wrong user''
                  (wrong_user_detail (ValueString (uq_UID du)) (UID q))]\<rparr>) \<and>
    (GetUserQuota client (QuotaSpec_zero\<lparr>UID := ValueString (uq_UID du)\<rparr>) = (q, None) \<and>
     ValueString (uq_UID du) = UID q \<longrightarrow>
       State (fst (UserQuotaResource_Read client gd du ru)) =
         Some (du\<lparr>
           uq_Enabled := (case Enabled q of Some v \<Rightarrow> Known v | None \<Rightarrow> uq_Enabled du),
           uq_CheckOnRaw := Known (CheckOnRaw q),
           uq_MaxSize := (case MaxSize q of Some n \<Rightarrow> Known n | None \<Rightarrow> uq_MaxSize du),
           uq_MaxSizeKB := (case MaxSizeKb q of Some n \<Rightarrow> Known n | None \<Rightarrow> uq_MaxSizeKB du),
           uq_MaxObjects := (case MaxObjects q of Some n \<Rightarrow> Known n | None \<Rightarrow> uq_MaxObjects du)\<rparr>)) \<and>
    (State (fst (UserQuotaResource_Read client gd du ru)) = Some du' \<longrightarrow> uq_UID du' = uq_UID du) \<and>
    ((if ValueString (gq_Type dg) = ''user''
      then GetUserQuota client (QuotaSpec_zero\<lparr>UID := ValueString (gq_UID dg)\<rparr>)
      else GetBucketQuota client (QuotaSpec_zero\<lparr>UID := ValueString (gq_UID dg)\<rparr>))
       = (q, None) \<longrightarrow>
       State (fst (QuotaResource_Read client gd dg rg)) =
         Some (dg\<lparr>
           gq_Enabled := (case Enabled q of Some v \<Rightarrow> Known v | None \<Rightarrow> gq_Enabled dg),
           gq_CheckOnRaw := Known (CheckOnRaw q),
           gq_MaxSize := (case MaxSize q of Some n \<Rightarrow> Known n | None \<Rightarrow> gq_MaxSize dg),
           gq_MaxSizeKB := (case MaxSizeKb q of Some n \<Rightarrow> Known n | None \<Rightarrow> gq_MaxSizeKB dg),
           gq_MaxObjects := (case MaxObjects q of Some n \<Rightarrow> Known n | None \<Rightarrow> gq_MaxObjects dg)\<rparr>)) \<and>
    (State (fst (QuotaResource_Read client gd dg rg)) = Some dg' \<longrightarrow>
       gq_UID dg' = gq_UID dg \<and> gq_Type dg' = gq_Type dg) \<and>
    (GetBucketInfo client
        \<lparr>b_Bucket = ValueString (bq_Bucket db), b_BucketQuota = QuotaSpec_zero\<rparr> = (b, None) \<longrightarrow>
       State (fst (BucketQuotaResource_Read client gd db rb)) =
         Some (db\<lparr>
           bq_Enabled := (case Enabled (b_BucketQuota b) of
                            Some v \<Rightarrow> Known v | None \<Rightarrow> bq_Enabled db),
           bq_CheckOnRaw := Known (CheckOnRaw (b_BucketQuota b)),
           bq_MaxSize := (case MaxSize (b_BucketQuota b) of
                            Some n \<Rightarrow> Known n | None \<Rightarrow> bq_MaxSize db),
           bq_MaxSizeKB := (case MaxSizeKb (b_BucketQuota b) of
                              Some n \<Rightarrow> Known n | None \<Rightarrow> bq_MaxSizeKB db),
           bq_MaxObjects := (case MaxObjects (b_BucketQuota b) of
                               Some n \<Rightarrow> Known n | None \<Rightarrow> bq_MaxObjects db)\<rparr>)) \<and>
    (State (fst (BucketQuotaResource_Read client gd db rb)) = Some db' \<longrightarrow>
       bq_UID db' = bq_UID db \<and> bq_Bucket db' = bq_Bucket db)"
  apply (intro conjI)
  subgoal
    using UserQuotaResource_Read_wrong_user [OF assms(1), where client = client and data = du]
    by simp
  subgoal
    apply (rule impI, elim conjE)
    apply (drule (1) UserQuotaResource_Read_ok [OF assms(1)])
    apply simp
    done
  subgoal
    using UserQuotaResource_Read_identifiers [OF assms(1,2)] by blast
  subgoal
    using QuotaResource_Read_ok [OF assms(3), where client = client and data = dg]
    by simp
  subgoal
    using QuotaResource_Read_identifiers [OF assms(3,4)] by blast
  subgoal
    using BucketQuotaResource_Read_ok [OF assms(5), where client = client and data = db]
    by simp
  subgoal
    using BucketQuotaResource_Read_identifiers [OF assms(5,6)] by blast
  done

theorem quota_Read_frame_witness:
  "\<not> HasError (Append (Diagnostics (Response_of uq_alice)) []) \<and>
   State (Response_of uq_alice) = Some uq_alice \<and>
   GetUserQuota admin_ok (QuotaSpec_zero\<lparr>UID := ValueString (uq_UID uq_alice)\<rparr>)
     = (example_quota, None) \<and>
   State (fst (UserQuotaResource_Read admin_ok [] uq_alice (Response_of uq_alice))) =
     Some \<lparr>uq_UID = Known ''alice'', uq_Enabled = Known False,
            uq_CheckOnRaw = Known True, uq_MaxSize = Known 8192,
            uq_MaxSizeKB = Known 4, uq_MaxObjects = Known 100\<rparr> \<and>
   State (fst (QuotaResource_Read admin_ok [] gq_alice (Response_of gq_alice))) =
     Some \<lparr>gq_UID = Known ''alice'', gq_Type = Known ''user'', gq_Enabled = Known False,
            gq_CheckOnRaw = Known True, gq_MaxSize = Known 8192, gq_MaxSizeKB = Known 4,
            gq_MaxObjects = Known 100\<rparr> \<and>
   State (fst (BucketQuotaResource_Read admin_ok [] bq_photos (Response_of bq_photos))) =
     Some \<lparr>bq_Bucket = Known ''photos'', bq_UID = Known ''alice'', bq_Enabled = Known False,
            bq_CheckOnRaw = Known True, bq_MaxSize = Known 8192, bq_MaxSizeKB = Known 0,
            bq_MaxObjects = Known 100\<rparr> \<and>
   fst (UserQuotaResource_Read admin_ok [] (uq_alice\<lparr>uq_UID := Known ''bob''\<rparr>)
          (Response_of (uq_alice\<lparr>uq_UID := Known ''bob''\<rparr>))) =
     \<lparr>State = Some (uq_alice\<lparr>uq_UID := Known ''bob''\<rparr>),
       Diagnostics = [ErrorDiagnostic ''api returned wrong user''
                        (wrong_user_detail ''bob'' ''alice'')]\<rparr>"
proof -
  have ok: "\<not> HasError (Append (Diagnostics (Response_of d)) [])"
    and st: "State (Response_of d) = Some d" for d :: 'm
    by (simp_all add: Response_of_def HasError_def)
  note alice = quota_Read_frame [OF ok st ok st ok st, where client = admin_ok
      and q = example_quota and b = "\<lparr>b_Bucket = ''photos'', b_BucketQuota = example_quota\<rparr>"
      and du = uq_alice and dg = gq_alice and db = bq_photos
      and du' = uq_alice and dg' = gq_alice and db' = bq_photos]
  note bob = quota_Read_frame [OF ok st ok st ok st, where client = admin_ok
      and q = example_quota and b = "\<lparr>b_Bucket = ''photos'', b_BucketQuota = example_quota\<rparr>"
      and du = "uq_alice\<lparr>uq_UID := Known ''bob''\<rparr>" and dg = gq_alice and db = bq_photos
      and du' = uq_alice and dg' = gq_alice and db' = bq_photos]
  have "State (fst (UserQuotaResource_Read admin_ok [] uq_alice (Response_of uq_alice))) =
     Some \<lparr>uq_UID = Known ''alice'', uq_Enabled = Known False,
            uq_CheckOnRaw = Known True, uq_MaxSize = Known 8192,
            uq_MaxSizeKB = Known 4, uq_MaxObjects = Known 100\<rparr>"
    using alice [THEN conjunct2, THEN conjunct1]
    by (simp add: admin_ok_def example_quota_def uq_alice_def QuotaSpec_zero_def)
  moreover have "State (fst (QuotaResource_Read admin_ok [] gq_alice (Response_of gq_alice))) =
     Some \<lparr>gq_UID = Known ''alice'', gq_Type = Known ''user'', gq_Enabled = Known False,
            gq_CheckOnRaw = Known True, gq_MaxSize = Known 8192, gq_MaxSizeKB = Known 4,
            gq_MaxObjects = Known 100\<rparr>"
    using alice [THEN conjunct2, THEN conjunct2, THEN conjunct2, THEN conjunct1]
    by (simp add: admin_ok_def example_quota_def gq_alice_def QuotaSpec_zero_def)
  moreover have "State (fst (BucketQuotaResource_Read admin_ok [] bq_photos (Response_of bq_photos))) =
     Some \<lparr>bq_Bucket = Known ''photos'', bq_UID = Known ''alice'', bq_Enabled = Known False,
            bq_CheckOnRaw = Known True, bq_MaxSize = Known 8192, bq_MaxSizeKB = Known 0,
            bq_MaxObjects = Known 100\<rparr>"
    using alice [THEN conjunct2, THEN conjunct2, THEN conjunct2, THEN conjunct2, THEN conjunct2,
        THEN conjunct1]
    by (simp add: admin_ok_def example_quota_def bq_photos_def QuotaSpec_zero_def)
  moreover have "fst (UserQuotaResource_Read admin_ok [] (uq_alice\<lparr>uq_UID := Known ''bob''\<rparr>)
          (Response_of (uq_alice\<lparr>uq_UID := Known ''bob''\<rparr>))) =
     \<lparr>State = Some (uq_alice\<lparr>uq_UID := Known ''bob''\<rparr>),
       Diagnostics = [ErrorDiagnostic ''api returned wrong user''
                        (wrong_user_detail ''bob'' ''alice'')]\<rparr>"
    using bob [THEN conjunct1]
    by (simp add: admin_ok_def example_quota_def Response_of_def uq_alice_def QuotaSpec_zero_def)
  moreover have "GetUserQuota admin_ok (QuotaSpec_zero\<lparr>UID := ValueString (uq_UID uq_alice)\<rparr>)
     = (example_quota, None)"
    by (simp add: admin_ok_def)
  ultimately show ?thesis
    using ok [of uq_alice] st [of uq_alice] by simp
qed

section \<open>Not-found errors across the operations\<close>

text \<open>
  C3, as the handlers have it. A remote not-found error counts as success through absence
  only where a handler checks for it: Read of each resource lets that resource's own
  not-found error pass (\<open>ErrNoSuchUser\<close> for the user quota, the generic quota and the
  bucket link, \<open>ErrNoSuchBucket\<close> for the bucket quota), and Delete of a bucket link lets
  \<open>ErrNoSuchBucket\<close> pass; these complete without a new diagnostic, and any other
  error of these calls adds one. Create and Update of the quota resources and Create of a
  bucket link report every remote error, the not-found ones too, as an error diagnostic.
  (Update of a bucket link makes no remote call. Delete of the quota resources is not
  part of this statement.)
\<close>

theorem not_found_where_checked:
  assumes "\<not> HasError (Append (Diagnostics ru) gd)"
    and "\<not> HasError (Append (Diagnostics rg) gd)"
    and "\<not> HasError (Append (Diagnostics rb) gd)"
    and "\<not> HasError (Append (Diagnostics rl) gd)"
  shows
   "(GetUserQuota client (QuotaSpec_zero\<lparr>UID := ValueString (uq_UID du)\<rparr>) = (q, Some e) \<longrightarrow>
       Diagnostics (fst (UserQuotaResource_Read client gd du ru)) =
         (if errors_Is e ErrNoSuchUser then Append (Diagnostics ru) gd
          else Append (Diagnostics ru) gd @
                 [ErrorDiagnostic ''could not get user quota'' (Error e)])) \<and>
    ((if ValueString (gq_Type dg) = ''user''
      then GetUserQuota client (QuotaSpec_zero\<lparr>UID := ValueString (gq_UID dg)\<rparr>)
      else GetBucketQuota client (QuotaSpec_zero\<lparr>UID := ValueString (gq_UID dg)\<rparr>))
       = (q, Some e) \<longrightarrow>
       Diagnostics (fst (QuotaResource_Read client gd dg rg)) =
         (if errors_Is e ErrNoSuchUser then Append (Diagnostics rg) gd
          else Append (Diagnostics rg) gd @
                 [ErrorDiagnostic ''could not get user quota'' (Error e)])) \<and>
    (GetBucketInfo client
        \<lparr>b_Bucket = ValueString (bq_Bucket db), b_BucketQuota = QuotaSpec_zero\<rparr> = (b, Some e) \<longrightarrow>
       Diagnostics (fst (BucketQuotaResource_Read client gd db rb)) =
         (if errors_Is e ErrNoSuchBucket then Append (Diagnostics rb) gd
          else Append (Diagnostics rb) gd @
                 [ErrorDiagnostic ''could not get bucket quota'' (Error e)])) \<and>
    (ListUsersBuckets client (ValueString (bl_UID dl)) = (buckets, Some e) \<longrightarrow>
       Diagnostics (fst (BucketLinkResource_Read client gd dl rl)) =
         (if errors_Is e ErrNoSuchUser then Append (Diagnostics rl) gd
          else Append (Diagnostics rl) gd @
                 [ErrorDiagnostic ''could not get user's buckets'' (Error e)])) \<and>
    ((if IsNull (bl_UnlinkToUID dl)
      then UnlinkBucket client \<lparr>li_Bucket = ValueString (bl_Bucket dl),
                                 li_UID = ValueString (bl_UID dl)\<rparr>
      else LinkBucket client \<lparr>li_Bucket = ValueString (bl_Bucket dl),
                               li_UID = ValueString (bl_UnlinkToUID dl)\<rparr>) = Some e \<longrightarrow>
       Diagnostics (fst (BucketLinkResource_Delete client gd dl rl)) =
         (if errors_Is e ErrNoSuchBucket then Append (Diagnostics rl) gd
          else Append (Diagnostics rl) gd @
                 [ErrorDiagnostic ''could not delete bucket link'' (Error e)])) \<and>
    (SetUserQuota client (rgwQuotaFromSchemaQuota_user du) = Some e \<longrightarrow>
       Diagnostics (fst (UserQuotaResource_Create client gd du ru)) =
         Append (Diagnostics ru) gd @ [ErrorDiagnostic ''could not create user quota'' (Error e)] \<and>
       Diagnostics (fst (UserQuotaResource_Update client gd du ru)) =
         Append (Diagnostics ru) gd @ [ErrorDiagnostic ''could not modify user quota'' (Error e)]) \<and>
    ((if ValueString (gq_Type dg) = ''user''
      then SetUserQuota client (rgwQuotaFromSchemaQuota dg)
      else SetBucketQuota client (rgwQuotaFromSchemaQuota dg)) = Some e \<longrightarrow>
       Diagnostics (fst (QuotaResource_Create client gd dg rg)) =
         Append (Diagnostics rg) gd @ [ErrorDiagnostic ''could not create user quota'' (Error e)] \<and>
       Diagnostics (fst (QuotaResource_Update client gd dg rg)) =
         Append (Diagnostics rg) gd @ [ErrorDiagnostic ''could not modify user quota'' (Error e)]) \<and>
    (SetIndividualBucketQuota client (rgwBucketQuotaFromSchemaQuota db) = Some e \<longrightarrow>
       Diagnostics (fst (BucketQuotaResource_Create client gd db rb)) =
         Append (Diagnostics rb) gd @ [ErrorDiagnostic ''could not create bucket quota'' (Error e)] \<and>
       Diagnostics (fst (BucketQuotaResource_Update client gd db rb)) =
         Append (Diagnostics rb) gd @ [ErrorDiagnostic ''could not modify bucket quota'' (Error e)]) \<and>
    (LinkBucket client
        \<lparr>li_Bucket = ValueString (bl_Bucket dl), li_UID = ValueString (bl_UID dl)\<rparr> = Some e \<longrightarrow>
       Diagnostics (fst (BucketLinkResource_Create client gd dl rl)) =
         Append (Diagnostics rl) gd @ [ErrorDiagnostic ''could not create bucket link'' (Error e)])"
  apply (intro conjI)
  subgoal
    using UserQuotaResource_Read_error [OF assms(1), where client = client and data = du]
    by simp
  subgoal
    using QuotaResource_Read_error [OF assms(2), where client = client and data = dg]
    by simp
  subgoal
    using BucketQuotaResource_Read_error [OF assms(3), where client = client and data = db]
    by simp
  subgoal
    using BucketLinkResource_Read_error [OF assms(4), where client = client and data = dl]
    by simp
  subgoal
    using BucketLinkResource_Delete_result [OF assms(4), where client = client and data = dl
        and err = "Some e"]
    by simp
  subgoal
    using UserQuotaResource_Create_error [OF assms(1), where client = client and data = du]
      UserQuotaResource_Update_error [OF assms(1), where client = client and data = du]
    by simp
  subgoal
    using QuotaResource_Create_error [OF assms(2), where client = client and data = dg]
      QuotaResource_Update_error [OF assms(2), where client = client and data = dg]
    by simp
  subgoal
    using BucketQuotaResource_Create_error [OF assms(3), where client = client and data = db]
      BucketQuotaResource_Update_error [OF assms(3), where client = client and data = db]
    by simp
  subgoal
    using BucketLinkResource_Create_error [OF assms(4), where client = client and data = dl]
    by simp
  done

theorem not_found_where_checked_witness:
  "\<not> HasError (Append (Diagnostics (Response_of uq_alice)) []) \<and>
   errors_Is (ErrWrap ''list buckets'' ErrNoSuchUser) ErrNoSuchUser \<and>
   Diagnostics (fst (UserQuotaResource_Read (admin_failing (ErrWrap ''list buckets'' ErrNoSuchUser))
                      [] uq_alice (Response_of uq_alice))) = [] \<and>
   Diagnostics (fst (BucketLinkResource_Read (admin_failing (ErrWrap ''list buckets'' ErrNoSuchUser))
                      [] bl_photos (Response_of bl_photos))) = [] \<and>
   Diagnostics (fst (BucketQuotaResource_Read (admin_failing ErrNoSuchBucket)
                      [] bq_photos (Response_of bq_photos))) = [] \<and>
   Diagnostics (fst (BucketLinkResource_Delete (admin_failing ErrNoSuchBucket)
                      [] bl_photos (Response_of bl_photos))) = [] \<and>
   Diagnostics (fst (BucketQuotaResource_Update (admin_failing ErrNoSuchBucket)
                      [] bq_photos (Response_of bq_photos))) =
     [ErrorDiagnostic ''could not modify bucket quota'' ''NoSuchBucket''] \<and>
   Diagnostics (fst (BucketLinkResource_Create (admin_failing ErrNoSuchBucket)
                      [] bl_photos Response_empty)) =
     [ErrorDiagnostic ''could not create bucket link'' ''NoSuchBucket'']"
  using not_found_where_checked [where client = "admin_failing (ErrWrap ''list buckets'' ErrNoSuchUser)"
      and gd = "[]" and e = "ErrWrap ''list buckets'' ErrNoSuchUser" and q = QuotaSpec_zero
      and b = "\<lparr>b_Bucket = [], b_BucketQuota = QuotaSpec_zero\<rparr>" and buckets = "[]"
      and du = uq_alice and ru = "Response_of uq_alice"
      and dg = gq_alice and rg = "Response_of gq_alice"
      and db = bq_photos and rb = "Response_of bq_photos"
      and dl = bl_photos and rl = "Response_of bl_photos"]
    not_found_where_checked [where client = "admin_failing ErrNoSuchBucket"
      and gd = "[]" and e = ErrNoSuchBucket and q = QuotaSpec_zero
      and b = "\<lparr>b_Bucket = [], b_BucketQuota = QuotaSpec_zero\<rparr>" and buckets = "[]"
      and du = uq_alice and ru = "Response_of uq_alice"
      and dg = gq_alice and rg = "Response_of gq_alice"
      and db = bq_photos and rb = "Response_of bq_photos"
      and dl = bl_photos and rl = "Response_of bl_photos"]
    not_found_where_checked [where client = "admin_failing ErrNoSuchBucket"
      and gd = "[]" and e = ErrNoSuchBucket and q = QuotaSpec_zero
      and b = "\<lparr>b_Bucket = [], b_BucketQuota = QuotaSpec_zero\<rparr>" and buckets = "[]"
      and du = uq_alice and ru = "Response_of uq_alice"
      and dg = gq_alice and rg = "Response_of gq_alice"
      and db = bq_photos and rb = "Response_of bq_photos"
      and dl = bl_photos and rl = Response_empty]
  by (simp add: admin_failing_def Response_of_def Response_empty_def HasError_def bl_photos_def)

text \<open>
  The claim as first stated, "every operation lets a remote not-found error pass without
  a diagnostic", fails on Create: the user quota's Create, told \<open>ErrNoSuchUser\<close> by the
  setter, reports it.
\<close>

theorem Create_reports_not_found:
  "errors_Is ErrNoSuchUser ErrNoSuchUser \<and>
   SetUserQuota (admin_failing ErrNoSuchUser) (rgwQuotaFromSchemaQuota_user uq_alice)
     = Some ErrNoSuchUser \<and>
   UserQuotaResource_Create (admin_failing ErrNoSuchUser) [] uq_alice Response_empty =
     (\<lparr>State = None,
       Diagnostics = [ErrorDiagnostic ''could not create user quota'' ''NoSuchUser'']\<rparr>,
      [Call_SetUserQuota (rgwQuotaFromSchemaQuota_user uq_alice)]) \<and>
   HasError (Diagnostics (fst (UserQuotaResource_Create (admin_failing ErrNoSuchUser) []
                                 uq_alice Response_empty)))"
  by (simp add: UserQuotaResource_Create_def admin_failing_def Response_empty_def resp_defs
      HasError_def AddError_def Let_def)

end
